theory Spec2Isabelle
  imports Main
begin

section \<open>Data model of the text ticket manager\<close>

text \<open>
  The development embeds \<^verbatim>\<open>src/managers/TextTicketManager.js\<close>. Ids are
  Discord snowflakes (strings). A raw ticket record is the \<^verbatim>\<open>RawTextTicketData\<close>
  object of the source. Its \<^verbatim>\<open>number\<close> field is modelled by its Number value, an
  integer-valued double: the field holds that JS number, or the string that
  \<^verbatim>\<open>createTicket\<close> prints from it (line 248), which \<^verbatim>\<open>b.number - a.number\<close> converts
  back to the number it was printed from. The arithmetic on these values is the
  arithmetic of doubles, given in the subsection on JS numbers.
\<close>

type_synonym snowflake = string

type_synonym addr = nat

record raw_ticket =
  channelId :: snowflake
  creatorId :: snowflake
  guildId :: snowflake
  number :: int
  participants :: "snowflake list"
  status :: string

subsection \<open>JS numbers\<close>

text \<open>
  A JS number is an IEEE 754 double. The integers among the doubles are the integers
  below \<open>2 ^ 53\<close> in absolute value and the integers \<open>q * 2 ^ e\<close> with
  \<open>2 ^ 52 \<le> q < 2 ^ 53\<close>. \<open>round_double x\<close> is the Number value for the integer
  \<open>x\<close>: the nearest double, the one with the even significand when two are equally
  near. (Beyond the largest double JS has \<^verbatim>\<open>Infinity\<close>, which the model does not
  have. Adding \<open>1\<close> to a finite double never gets there; a difference of two doubles
  can, and then \<^verbatim>\<open>Infinity\<close> has the sign that \<open>round_double\<close> gives, which is all the
  comparator of the sort is read for.)
\<close>

function bit_length :: "int \<Rightarrow> nat" where
  "bit_length n = (if n \<le> 0 then 0 else Suc (bit_length (n div 2)))"
  by pat_completeness auto
termination
  by (relation "measure nat") auto

function dec_length :: "int \<Rightarrow> nat" where
  "dec_length n = (if n \<le> 0 then 0 else Suc (dec_length (n div 10)))"
  by pat_completeness auto
termination
  by (relation "measure nat") auto

declare bit_length.simps [simp del] dec_length.simps [simp del]

definition round_magnitude :: "int \<Rightarrow> int" where
  "round_magnitude n =
     (if n < 2 ^ 53 then n
      else (let e = bit_length n - 53;
                q = n div 2 ^ e;
                r = n mod 2 ^ e;
                half = 2 ^ (e - 1)
            in (if r < half then q
                else if half < r then q + 1
                else if even q then q else q + 1) * 2 ^ e))"

definition round_double :: "int \<Rightarrow> int" where
  "round_double x = sgn x * round_magnitude \<bar>x\<bar>"

text \<open>\<^verbatim>\<open>Number.isSafeInteger\<close>.\<close>

definition safe_integer :: "int \<Rightarrow> bool" where
  "safe_integer n = (\<bar>n\<bar> \<le> 2 ^ 53 - 1)"

text \<open>\<^verbatim>\<open>x + y\<close> and \<^verbatim>\<open>x - y\<close> on numbers: the exact result, rounded.\<close>

definition js_plus :: "int \<Rightarrow> int \<Rightarrow> int" where
  "js_plus x y = round_double (x + y)"

definition js_minus :: "int \<Rightarrow> int \<Rightarrow> int" where
  "js_minus x y = round_double (x - y)"

text \<open>
  \<^verbatim>\<open>Number::toString\<close> prints the decimal with the fewest significant digits whose
  Number value is \<open>x\<close>, and of these the one nearest to \<open>x\<close> (the even one on a tie).
  \<open>shortest_from x p\<close> looks for it among the multiples of \<open>10 ^ p\<close> next to \<open>x\<close>,
  for \<open>p\<close> counting down from the number of digits of \<open>x\<close>; the multiple of
  \<open>10 ^ 0\<close> is \<open>x\<close>.
\<close>

fun shortest_from :: "int \<Rightarrow> nat \<Rightarrow> int" where
  "shortest_from x 0 = x"
| "shortest_from x (Suc p) =
     (let v1 = (x div 10 ^ Suc p) * 10 ^ Suc p;
          v2 = v1 + 10 ^ Suc p;
          ok1 = (0 < v1 \<and> round_double v1 = x);
          ok2 = (round_double v2 = x)
      in if ok1 \<and> ok2
         then (if x - v1 < v2 - x then v1
               else if v2 - x < x - v1 then v2
               else if even (x div 10 ^ Suc p) then v1 else v2)
         else if ok1 then v1
         else if ok2 then v2
         else shortest_from x p)"

definition shortest_decimal :: "int \<Rightarrow> int" where
  "shortest_decimal x = shortest_from x (dec_length x)"

function strip_zeros :: "int \<Rightarrow> int" where
  "strip_zeros n = (if 0 < n \<and> n mod 10 = 0 then strip_zeros (n div 10) else n)"
  by pat_completeness auto
termination
  by (relation "measure nat") auto

function leading_digit :: "int \<Rightarrow> int" where
  "leading_digit n = (if n < 10 then n else leading_digit (n div 10))"
  by pat_completeness auto
termination
  by (relation "measure nat") auto

declare strip_zeros.simps [simp del] leading_digit.simps [simp del]

text \<open>
  The strings \<^verbatim>\<open>String(x)\<close> yields for an integer-valued \<open>x\<close>: below \<open>10 ^ 21\<close> the
  digits of the shortest decimal (\<open>Digits v\<close>: a \<^verbatim>\<open>-\<close> when \<open>v\<close> is negative, then the
  decimal digits of \<open>v\<close>); from \<open>10 ^ 21\<close> on the exponent form (\<open>Exponential s e\<close>: the
  sign, the first digit of \<open>s\<close>, a \<^verbatim>\<open>.\<close> and the other digits of \<open>s\<close> when there are
  any, then \<^verbatim>\<open>e+\<close> and \<open>e\<close>).
\<close>

datatype number_string = Digits int | Exponential int nat

definition js_String :: "int \<Rightarrow> number_string" where
  "js_String x =
     (let v = shortest_decimal \<bar>x\<bar>
      in if v < 10 ^ 21 then Digits (sgn x * v)
         else Exponential (sgn x * strip_zeros v) (dec_length v - 1))"

text \<open>
  \<^verbatim>\<open>parseInt\<close> on such a string reads the sign and the digits up to the first character
  that is no digit: all of \<open>Digits v\<close>, whose value it rounds to a number, and the first
  digit only of the exponent form, which a \<^verbatim>\<open>.\<close> or an \<^verbatim>\<open>e\<close> follows.
\<close>

fun js_parseInt :: "number_string \<Rightarrow> int" where
  "js_parseInt (Digits v) = round_double v"
| "js_parseInt (Exponential s e) = sgn s * leading_digit \<bar>s\<bar>"

text \<open>\<^verbatim>\<open>TextTicketManagerOptions\<close>: every field may be null or undefined (\<open>None\<close>).\<close>

record manager_options =
  channelTopic :: "string option"
  closedParentId :: "snowflake option"
  parentId :: "snowflake option"
  staffRoles :: "snowflake list option"
  storage :: "string option"

text \<open>
  Modelled from the spec: the ticket entity class \<^verbatim>\<open>structures/TextTicket\<close> is not
  among the sources. The spec calls it a view over one raw ticket record with a
  back-reference to the manager, and the manager reads \<^verbatim>\<open>ticket._data\<close> and looks it
  up in \<^verbatim>\<open>_rawTickets\<close> by identity, so an entity holds a reference (an address) to
  its record object.
\<close>

datatype text_ticket = TextTicket (ticket_data: addr)

text \<open>
  The JS values an operation can receive where it expects a ticket or a client:
  \<^verbatim>\<open>null\<close>, \<^verbatim>\<open>undefined\<close>, a boolean, a plain object \<^verbatim>\<open>{}\<close>, a ticket entity, or a
  \<^verbatim>\<open>Discord.Client\<close>.
\<close>

datatype js_value =
  JsNull | JsUndefined | JsBoolean bool | JsObject | JsTicket text_ticket | JsClient

fun truthy :: "js_value \<Rightarrow> bool" where
  "truthy JsNull = False"
| "truthy JsUndefined = False"
| "truthy (JsBoolean b) = b"
| "truthy JsObject = True"
| "truthy (JsTicket t) = True"
| "truthy JsClient = True"

text \<open>The unary \<^verbatim>\<open>!\<close> always yields a boolean.\<close>

definition js_not :: "js_value \<Rightarrow> js_value" where
  "js_not v = JsBoolean (\<not> truthy v)"

text \<open>\<^verbatim>\<open>v instanceof C\<close> is false for every primitive value.\<close>

fun instanceof_TextTicket :: "js_value \<Rightarrow> bool" where
  "instanceof_TextTicket (JsTicket t) = True"
| "instanceof_TextTicket v = False"

fun instanceof_Client :: "js_value \<Rightarrow> bool" where
  "instanceof_Client JsClient = True"
| "instanceof_Client v = False"

text \<open>
  The errors of \<^verbatim>\<open>utils/Errors\<close> that the manager throws, the \<^verbatim>\<open>TypeError\<close> of the
  JS runtime (a property read on \<^verbatim>\<open>null\<close> or \<^verbatim>\<open>undefined\<close>), and the rejections of
  the Discord client and of the file system, which the manager lets through.
\<close>

datatype error =
  INVALID_CLIENT | MISSING_OPTIONS | NOT_READY | INVALID_TICKET | NOT_RESOLVABLE
  | INVALID_CATEGORY | TypeError | RemoteError | FsError

subsection \<open>The Discord client\<close>

datatype guild = Guild (guild_id: snowflake)

datatype user = User (user_id: snowflake)

datatype member = Member (member_id: snowflake)

datatype channel = Channel (channel_id: snowflake) (channel_type: string)

datatype overwrite = Allow snowflake "string list" | Deny snowflake "string list"

text \<open>A channel name built by a template literal \<^verbatim>\<open>`${prefix}-${number}`\<close>.\<close>

datatype channel_name = Template string int

text \<open>
  The client library is an external collaborator: what its caches resolve and whether
  its remote calls succeed are parameters. A resolver returns \<open>None\<close> for \<^verbatim>\<open>null\<close>; a
  remote call that is rejected yields \<open>None\<close> or \<open>False\<close>.
\<close>

record discord =
  guilds_resolve :: "snowflake \<Rightarrow> guild option"
  users_resolve :: "snowflake \<Rightarrow> user option"
  members_resolve :: "guild \<Rightarrow> user option \<Rightarrow> member option"
  guild_channels_resolve :: "guild \<Rightarrow> snowflake option \<Rightarrow> channel option"
  channels_resolve :: "snowflake \<Rightarrow> channel option"
  roles_everyone :: "guild \<Rightarrow> snowflake"
  roles_resolve :: "guild \<Rightarrow> snowflake \<Rightarrow> snowflake option"
  channels_create :: "guild \<Rightarrow> channel_name \<Rightarrow> channel option"
  channel_edit_ok :: "channel \<Rightarrow> bool"
  channel_delete_ok :: "channel \<Rightarrow> bool"
  writeFile_ok :: "string \<Rightarrow> bool"
  readFile_ok :: "string \<Rightarrow> bool"

subsection \<open>The world outside the manager object\<close>

text \<open>
  The content of a storage file as \<^verbatim>\<open>JSON.parse\<close> sees it: text that does not parse,
  a JSON value that is not an array, or an array of ticket records.
  \<^verbatim>\<open>JSON.stringify\<close> writes the third kind.
\<close>

datatype file_content = Unparseable | NotAnArray | TicketArray "raw_ticket list"

text \<open>Remote calls and file accesses, logged in the order they are issued.\<close>

datatype io_event =
  FsExists string
  | FsReadFile string
  | FsWriteFile string "raw_ticket list"
  | ChannelsCreate snowflake channel_name "snowflake option" "overwrite list" string
  | ChannelEdit snowflake channel_name "channel option" "overwrite list option"
  | ChannelDelete snowflake

text \<open>
  The record objects live in a store: \<open>heap\<close> maps an address to the object's fields,
  \<open>nextAddr\<close> is the next unused address. \<open>fs\<close> is the file system (\<open>None\<close>: no such
  file), \<open>io\<close> the log of remote calls and file accesses, \<open>emitted\<close> the events
  handed to the listeners.
\<close>

record world =
  heap :: "addr \<Rightarrow> raw_ticket"
  nextAddr :: addr
  fs :: "string \<rightharpoonup> file_content"
  io :: "io_event list"
  emitted :: "(string \<times> text_ticket) list"

text \<open>The fields of a \<^verbatim>\<open>TextTicketManager\<close>; \<open>rawTickets\<close> is an array of references.\<close>

record manager =
  client :: js_value
  options :: manager_options
  tickets :: "int \<rightharpoonup> text_ticket"
  rawTickets :: "addr list"
  ready :: bool

subsection \<open>The ticket entity\<close>

text \<open>
  Modelled from the spec: the accessors of \<^verbatim>\<open>TextTicket\<close>. The fields of the record
  are read through the reference; guild and channel are "resolved on demand through the
  external client" and "may resolve to not found".
\<close>

definition new_TextTicket :: "addr \<Rightarrow> text_ticket" where
  "new_TextTicket a = TextTicket a"

definition ticket_number :: "world \<Rightarrow> text_ticket \<Rightarrow> int" where
  "ticket_number w t = number (heap w (ticket_data t))"

definition ticket_creatorId :: "world \<Rightarrow> text_ticket \<Rightarrow> snowflake" where
  "ticket_creatorId w t = creatorId (heap w (ticket_data t))"

definition ticket_channelId :: "world \<Rightarrow> text_ticket \<Rightarrow> snowflake" where
  "ticket_channelId w t = channelId (heap w (ticket_data t))"

definition ticket_status :: "world \<Rightarrow> text_ticket \<Rightarrow> string" where
  "ticket_status w t = status (heap w (ticket_data t))"

definition ticket_guild :: "discord \<Rightarrow> world \<Rightarrow> text_ticket \<Rightarrow> guild option" where
  "ticket_guild env w t = guilds_resolve env (guildId (heap w (ticket_data t)))"

definition ticket_channel :: "discord \<Rightarrow> world \<Rightarrow> text_ticket \<Rightarrow> channel option" where
  "ticket_channel env w t = channels_resolve env (channelId (heap w (ticket_data t)))"

text \<open>The records that the references of \<open>rawTickets\<close> point to, in order.\<close>

definition records :: "manager \<Rightarrow> world \<Rightarrow> raw_ticket list" where
  "records m w = map (heap w) (rawTickets m)"

section \<open>The operations\<close>

subsection \<open>Arrays\<close>

text \<open>\<^verbatim>\<open>Array.prototype.indexOf\<close>: the first index holding the value, or \<open>-1\<close>.\<close>

fun indexOf :: "'a list \<Rightarrow> 'a \<Rightarrow> int" where
  "indexOf [] a = - 1"
| "indexOf (x # xs) a =
     (if x = a then 0 else (let i = indexOf xs a in if i < 0 then - 1 else i + 1))"

text \<open>
  \<^verbatim>\<open>xs[i] = v\<close> for the indices \<open>indexOf\<close> returns: an index of the array replaces
  that element; the index \<open>-1\<close> creates a property named \<^verbatim>\<open>"-1"\<close>, which is no element
  of the array (its length and its JSON form are unchanged).
\<close>

definition array_assign :: "'a list \<Rightarrow> int \<Rightarrow> 'a \<Rightarrow> 'a list" where
  "array_assign xs i v = (if 0 \<le> i \<and> nat i < length xs then xs[nat i := v] else xs)"

text \<open>
  \<^verbatim>\<open>Array.prototype.sort(cmp)\<close>, a stable sort: \<open>x\<close> goes before \<open>y\<close> when
  \<open>cmp x y \<le> 0\<close>. Written as an insertion sort.
\<close>

fun insert_cmp :: "('a \<Rightarrow> 'a \<Rightarrow> int) \<Rightarrow> 'a \<Rightarrow> 'a list \<Rightarrow> 'a list" where
  "insert_cmp cmp x [] = [x]"
| "insert_cmp cmp x (y # ys) =
     (if cmp x y \<le> 0 then x # y # ys else y # insert_cmp cmp x ys)"

fun sort_cmp :: "('a \<Rightarrow> 'a \<Rightarrow> int) \<Rightarrow> 'a list \<Rightarrow> 'a list" where
  "sort_cmp cmp [] = []"
| "sort_cmp cmp (x # xs) = insert_cmp cmp x (sort_cmp cmp xs)"

subsection \<open>Persistence\<close>

text \<open>
  \<^verbatim>\<open>_saveRawTickets\<close> (lines 148-154): one \<^verbatim>\<open>writeFile\<close> of the whole array. A path
  that is \<^verbatim>\<open>null\<close> makes \<^verbatim>\<open>writeFile\<close> throw; a rejected write leaves the file as it
  was in the model.
\<close>

definition saveRawTickets :: "discord \<Rightarrow> manager \<Rightarrow> world \<Rightarrow> (error + bool) \<times> world" where
  "saveRawTickets env m w =
     (case storage (options m) of
        None \<Rightarrow> (Inl TypeError, w)
      | Some path \<Rightarrow>
          (let w1 = w\<lparr>io := io w @ [FsWriteFile path (records m w)]\<rparr>
           in if writeFile_ok env path
              then (Inr True, w1\<lparr>fs := (fs w1)(path \<mapsto> TicketArray (records m w))\<rparr>)
              else (Inl FsError, w1)))"

text \<open>\<^verbatim>\<open>JSON.parse\<close> builds a fresh object for every element of the array.\<close>

fun alloc_all :: "raw_ticket list \<Rightarrow> world \<Rightarrow> addr list \<times> world" where
  "alloc_all [] w = ([], w)"
| "alloc_all (r # rs) w =
     (let a = nextAddr w;
          w1 = w\<lparr>heap := (heap w)(a := r), nextAddr := Suc a\<rparr>;
          (as, w2) = alloc_all rs w1
      in (a # as, w2))"

text \<open>
  \<^verbatim>\<open>_loadAllTickets\<close> (lines 107-143) from its first \<^verbatim>\<open>await\<close> on: the answer of
  \<^verbatim>\<open>exists\<close> is whether the file system has the path.
\<close>

definition loadAllTickets :: "discord \<Rightarrow> manager \<Rightarrow> world \<Rightarrow> (error + addr list) \<times> world" where
  "loadAllTickets env m w =
     (case storage (options m) of
        None \<Rightarrow> (Inl TypeError, w)
      | Some path \<Rightarrow>
          (case fs w path of
             None \<Rightarrow>
               (let w1 = w\<lparr>io := io w @ [FsWriteFile path []]\<rparr>
                in if writeFile_ok env path
                   then (Inr [], w1\<lparr>fs := (fs w1)(path \<mapsto> TicketArray [])\<rparr>)
                   else (Inl FsError, w1))
           | Some storageContent \<Rightarrow>
               (let w1 = w\<lparr>io := io w @ [FsReadFile path]\<rparr>
                in if \<not> readFile_ok env path then (Inl FsError, w1)
                   else (case storageContent of
                           TicketArray storageTickets \<Rightarrow>
                             (let (as, w2) = alloc_all storageTickets w1 in (Inr as, w2))
                         | NotAnArray \<Rightarrow> (Inr [], w1)
                         | Unparseable \<Rightarrow> (Inr [], w1)))))"

subsection \<open>Construction and initial load\<close>

text \<open>The loop of \<^verbatim>\<open>_init\<close> (lines 92-98): a later record with the same number wins.\<close>

fun index_all :: "world \<Rightarrow> addr list \<Rightarrow> (int \<rightharpoonup> text_ticket) \<Rightarrow> (int \<rightharpoonup> text_ticket)" where
  "index_all w [] ix = ix"
| "index_all w (rawTicket # rest) ix =
     (let textTicket = new_TextTicket rawTicket
      in index_all w rest (ix(ticket_number w textTicket \<mapsto> textTicket)))"

text \<open>
  The constructor (lines 37-81). \<^verbatim>\<open>!client instanceof Discord.Client\<close> parses as
  \<^verbatim>\<open>(!client) instanceof Discord.Client\<close>. A string option is falsy when it is
  \<^verbatim>\<open>null\<close>/\<^verbatim>\<open>undefined\<close> or the empty string. The call \<^verbatim>\<open>this._init()\<close> runs
  synchronously up to the first \<^verbatim>\<open>await\<close>, that is, it issues \<^verbatim>\<open>exists(storage)\<close>;
  the rest of \<^verbatim>\<open>_init\<close> is \<open>init\<close> below.
\<close>

definition construct ::
  "js_value \<Rightarrow> manager_options option \<Rightarrow> world \<Rightarrow> (error + manager) \<times> world" where
  "construct c opts w =
     (if \<not> truthy c \<or> instanceof_Client (js_not c) then (Inl INVALID_CLIENT, w)
      else (case opts of
              None \<Rightarrow> (Inl MISSING_OPTIONS, w)
            | Some opt \<Rightarrow>
                (case (parentId opt, storage opt) of
                   (Some pid, Some path) \<Rightarrow>
                     if pid = [] \<or> path = [] then (Inl MISSING_OPTIONS, w)
                     else (let opt1 = opt\<lparr>closedParentId :=
                                       (case closedParentId opt of
                                          None \<Rightarrow> parentId opt | Some cp \<Rightarrow> Some cp)\<rparr>;
                               m = \<lparr>client = c, options = opt1, tickets = Map.empty,
                                    rawTickets = [], ready = False\<rparr>
                           in (Inr m, w\<lparr>io := io w @ [FsExists path]\<rparr>))
                 | _ \<Rightarrow> (Inl MISSING_OPTIONS, w))))"

text \<open>\<^verbatim>\<open>_init\<close> (lines 86-102) after the load has been awaited.\<close>

definition init :: "discord \<Rightarrow> manager \<Rightarrow> world \<Rightarrow> (error + unit) \<times> manager \<times> world" where
  "init env m w =
     (case loadAllTickets env m w of
        (Inl e, w1) \<Rightarrow> (Inl e, m, w1)
      | (Inr loadedTickets, w1) \<Rightarrow>
          (let m1 = m\<lparr>rawTickets := loadedTickets\<rparr>;
               m2 = m1\<lparr>tickets := index_all w1 (rawTickets m1) (tickets m1)\<rparr>
           in (Inr (), m2\<lparr>ready := True\<rparr>, w1)))"

subsection \<open>Queries and mutations\<close>

text \<open>\<^verbatim>\<open>checkDoubleTickets\<close> (lines 162-166). It has no statement that throws.\<close>

definition checkDoubleTickets ::
  "manager \<Rightarrow> world \<Rightarrow> snowflake \<Rightarrow> snowflake \<Rightarrow> error + bool" where
  "checkDoubleTickets m w gid uid =
     Inr (find (\<lambda>rawTicket. guildId (heap w rawTicket) = gid
                          \<and> creatorId (heap w rawTicket) = uid) (rawTickets m) \<noteq> None)"

definition ticket_permissions :: "string list" where
  "ticket_permissions =
     [''VIEW_CHANNEL'', ''SEND_MESSAGES'', ''ATTACH_FILES'', ''ADD_REACTIONS'',
      ''READ_MESSAGE_HISTORY'']"

text \<open>The loop over \<^verbatim>\<open>this.options.staffRoles ?? []\<close>: one overwrite per role that resolves.\<close>

fun staff_overwrites :: "discord \<Rightarrow> guild \<Rightarrow> snowflake list \<Rightarrow> overwrite list" where
  "staff_overwrites env g [] = []"
| "staff_overwrites env g (staffRole # rest) =
     (case roles_resolve env g staffRole of
        None \<Rightarrow> staff_overwrites env g rest
      | Some resolvedStaffRole \<Rightarrow>
          Allow resolvedStaffRole ticket_permissions # staff_overwrites env g rest)"

definition staff_roles :: "manager \<Rightarrow> snowflake list" where
  "staff_roles m = (case staffRoles (options m) of None \<Rightarrow> [] | Some rs \<Rightarrow> rs)"

text \<open>
  Lines 202-209 of \<^verbatim>\<open>closeTicket\<close> and lines 381-388 of \<^verbatim>\<open>reopenTicket\<close> are the
  same statements up to the status literal: write the status through the reference,
  wrap the record in a new entity, index it, assign the reference at its own index,
  save.
\<close>

definition update_status ::
  "string \<Rightarrow> discord \<Rightarrow> text_ticket \<Rightarrow> manager \<Rightarrow> world
     \<Rightarrow> (error + text_ticket) \<times> manager \<times> world" where
  "update_status st env t m w =
     (let a = ticket_data t;
          w1 = w\<lparr>heap := (heap w)(a := (heap w a)\<lparr>status := st\<rparr>)\<rparr>;
          newTicket = new_TextTicket a;
          m1 = m\<lparr>tickets := (tickets m)(ticket_number w1 newTicket \<mapsto> newTicket)\<rparr>;
          m2 = m1\<lparr>rawTickets := array_assign (rawTickets m1) (indexOf (rawTickets m1) a) a\<rparr>
      in (case saveRawTickets env m2 w1 of
            (Inl e, w2) \<Rightarrow> (Inl e, m2, w2)
          | (Inr ok, w2) \<Rightarrow> (Inr newTicket, m2, w2)))"

text \<open>
  \<^verbatim>\<open>closeTicket\<close> (lines 172-220). \<^verbatim>\<open>!ticket instanceof TextTicket\<close> parses as
  \<^verbatim>\<open>(!ticket) instanceof TextTicket\<close>. Reading \<^verbatim>\<open>ticket.guild.channels\<close> throws a
  \<^verbatim>\<open>TypeError\<close> when \<^verbatim>\<open>ticket\<close> is \<^verbatim>\<open>null\<close> or \<^verbatim>\<open>undefined\<close>, or has no \<^verbatim>\<open>guild\<close>.
\<close>

definition closeTicket ::
  "discord \<Rightarrow> js_value \<Rightarrow> manager \<Rightarrow> world \<Rightarrow> (error + text_ticket) \<times> manager \<times> world" where
  "closeTicket env ticket m w =
     (if \<not> ready m then (Inl NOT_READY, m, w)
      else if instanceof_TextTicket (js_not ticket) then (Inl INVALID_TICKET, m, w)
      else (case ticket of
              JsTicket t \<Rightarrow>
                (case ticket_guild env w t of
                   None \<Rightarrow> (Inl TypeError, m, w)
                 | Some g \<Rightarrow>
                     (case guild_channels_resolve env g (closedParentId (options m)) of
                        None \<Rightarrow> (Inl INVALID_CATEGORY, m, w)
                      | Some closedTicketCategory \<Rightarrow>
                          (let ticketPermissions =
                                 [Deny (ticket_creatorId w t) ticket_permissions,
                                  Deny (roles_everyone env g) [''VIEW_CHANNEL'']]
                                 @ staff_overwrites env g (staff_roles m)
                           in (case ticket_channel env w t of
                                 None \<Rightarrow> (Inl TypeError, m, w)
                               | Some ch \<Rightarrow>
                                   (let w1 = w\<lparr>io := io w @
                                          [ChannelEdit (channel_id ch)
                                             (Template ''closed'' (ticket_number w t))
                                             (Some closedTicketCategory)
                                             (Some ticketPermissions)]\<rparr>
                                    in if \<not> channel_edit_ok env ch then (Inl RemoteError, m, w1)
                                       else (case update_status ''closed'' env t m w1 of
                                               (Inl e, m2, w2) \<Rightarrow> (Inl e, m2, w2)
                                             | (Inr newTicket, m2, w2) \<Rightarrow>
                                                 (Inr newTicket, m2,
                                                  w2\<lparr>emitted := emitted w2 @
                                                       [(''ticketClosed'', newTicket)]\<rparr>)))))))
            | _ \<Rightarrow> (Inl TypeError, m, w)))"

text \<open>
  Lines 242-248 of \<^verbatim>\<open>createTicket\<close>: the records of the guild, the highest number
  among them after the descending sort (the sorted array is as long as the filtered
  one, so it has a first element exactly when that one is not empty), and
  \<^verbatim>\<open>parseInt(String(ticketNumber)) + 1\<close>. Line 248 prints the result; the record
  keeps it as its number.
\<close>

definition newTicketNumber :: "manager \<Rightarrow> world \<Rightarrow> guild \<Rightarrow> int" where
  "newTicketNumber m w resolvedGuild =
     (let guildTickets =
            filter (\<lambda>rawTicket. guildId (heap w rawTicket) = guild_id resolvedGuild)
              (rawTickets m);
          ticketNumber =
            (if length guildTickets > 0
             then (case sort_cmp (\<lambda>a b. js_minus (number (heap w b)) (number (heap w a)))
                          guildTickets of
                     [] \<Rightarrow> 0
                   | first # rest \<Rightarrow> number (heap w first))
             else 0)
      in js_plus (js_parseInt (js_String ticketNumber)) 1)"

text \<open>
  \<^verbatim>\<open>createTicket\<close> (lines 228-295). Line 234 reads \<^verbatim>\<open>resolvedGuild.members\<close> before
  line 236 tests \<^verbatim>\<open>resolvedGuild\<close>, so a guild that does not resolve throws a
  \<^verbatim>\<open>TypeError\<close> there; so does \<^verbatim>\<open>this.client.guilds.resolve\<close> on a client that is no
  \<^verbatim>\<open>Discord.Client\<close>.
\<close>

definition createTicket ::
  "discord \<Rightarrow> snowflake \<Rightarrow> snowflake \<Rightarrow> manager \<Rightarrow> world
     \<Rightarrow> (error + text_ticket) \<times> manager \<times> world" where
  "createTicket env guild user m w =
     (if \<not> ready m then (Inl NOT_READY, m, w)
      else (case client m of
              JsClient \<Rightarrow>
                (let resolvedGuild = guilds_resolve env guild;
                     resolvedUser = users_resolve env user
                 in (case resolvedGuild of
                       None \<Rightarrow> (Inl TypeError, m, w)
                     | Some g \<Rightarrow>
                         (case (resolvedUser, members_resolve env g resolvedUser) of
                            (Some u, Some resolvedMember) \<Rightarrow>
                              (case guild_channels_resolve env g (parentId (options m)) of
                                 None \<Rightarrow> (Inl INVALID_CATEGORY, m, w)
                               | Some ticketCategory \<Rightarrow>
                                   if channel_type ticketCategory \<noteq> ''GUILD_CATEGORY''
                                   then (Inl INVALID_CATEGORY, m, w)
                                   else
                                     (let n = newTicketNumber m w g;
                                          ticketPermissions =
                                            [Allow (member_id resolvedMember) ticket_permissions,
                                             Deny (roles_everyone env g) [''VIEW_CHANNEL'']]
                                            @ staff_overwrites env g (staff_roles m);
                                          topic = (case channelTopic (options m) of
                                                     None \<Rightarrow> [] | Some tp \<Rightarrow> tp);
                                          w1 = w\<lparr>io := io w @
                                                 [ChannelsCreate (guild_id g) (Template ''ticket'' n)
                                                    (Some (channel_id ticketCategory))
                                                    ticketPermissions topic]\<rparr>
                                      in (case channels_create env g (Template ''ticket'' n) of
                                            None \<Rightarrow> (Inl RemoteError, m, w1)
                                          | Some ticketChannel \<Rightarrow>
                                              (let a = nextAddr w1;
                                                   w2 = w1\<lparr>heap := (heap w1)(a :=
                                                          \<lparr>channelId = channel_id ticketChannel,
                                                           creatorId = user_id u,
                                                           guildId = guild_id g,
                                                           number = n,
                                                           participants = [],
                                                           status = ''open''\<rparr>),
                                                         nextAddr := Suc a\<rparr>;
                                                   ticket = new_TextTicket a;
                                                   m1 = m\<lparr>rawTickets := rawTickets m @ [a]\<rparr>
                                               in (case saveRawTickets env m1 w2 of
                                                     (Inl e, w3) \<Rightarrow> (Inl e, m1, w3)
                                                   | (Inr ok, w3) \<Rightarrow>
                                                       (Inr ticket,
                                                        m1\<lparr>tickets := (tickets m1)
                                                              (ticket_number w3 ticket \<mapsto> ticket)\<rparr>,
                                                        w3\<lparr>emitted := emitted w3 @
                                                             [(''ticketCreated'', ticket)]\<rparr>))))))
                          | _ \<Rightarrow> (Inl NOT_RESOLVABLE, m, w))))
            | _ \<Rightarrow> (Inl TypeError, m, w)))"

text \<open>\<^verbatim>\<open>deleteTicket\<close> (lines 302-325).\<close>

definition deleteTicket ::
  "discord \<Rightarrow> js_value \<Rightarrow> manager \<Rightarrow> world \<Rightarrow> (error + bool) \<times> manager \<times> world" where
  "deleteTicket env ticket m w =
     (if \<not> ready m then (Inl NOT_READY, m, w)
      else if instanceof_TextTicket (js_not ticket) then (Inl INVALID_TICKET, m, w)
      else (case ticket of
              JsTicket t \<Rightarrow>
                (case ticket_channel env w t of
                   None \<Rightarrow> (Inl TypeError, m, w)
                 | Some ch \<Rightarrow>
                     (let w1 = w\<lparr>io := io w @ [ChannelDelete (channel_id ch)]\<rparr>
                      in if \<not> channel_delete_ok env ch then (Inl RemoteError, m, w1)
                         else
                           (let m1 = m\<lparr>rawTickets :=
                                      filter (\<lambda>rawTicket. channelId (heap w1 rawTicket)
                                                           \<noteq> ticket_channelId w1 t)
                                        (rawTickets m)\<rparr>
                            in (case saveRawTickets env m1 w1 of
                                  (Inl e, w2) \<Rightarrow> (Inl e, m1, w2)
                                | (Inr ok, w2) \<Rightarrow>
                                    (Inr True,
                                     m1\<lparr>tickets := (tickets m1)(ticket_number w2 t := None)\<rparr>,
                                     w2\<lparr>emitted := emitted w2 @ [(''ticketDeleted'', t)]\<rparr>)))))
            | _ \<Rightarrow> (Inl TypeError, m, w)))"

text \<open>\<^verbatim>\<open>renameTicket\<close> (lines 333-350).\<close>

definition renameTicket ::
  "discord \<Rightarrow> js_value \<Rightarrow> string \<Rightarrow> manager \<Rightarrow> world
     \<Rightarrow> (error + text_ticket) \<times> manager \<times> world" where
  "renameTicket env ticket newName m w =
     (if \<not> ready m then (Inl NOT_READY, m, w)
      else if instanceof_TextTicket (js_not ticket) then (Inl INVALID_TICKET, m, w)
      else (case ticket of
              JsTicket t \<Rightarrow>
                (case ticket_channel env w t of
                   None \<Rightarrow> (Inl TypeError, m, w)
                 | Some ch \<Rightarrow>
                     (let w1 = w\<lparr>io := io w @
                            [ChannelEdit (channel_id ch) (Template newName (ticket_number w t))
                               None None]\<rparr>
                      in if \<not> channel_edit_ok env ch then (Inl RemoteError, m, w1)
                         else (Inr t, m, w1\<lparr>emitted := emitted w1 @ [(''ticketRenamed'', t)]\<rparr>)))
            | _ \<Rightarrow> (Inl TypeError, m, w)))"

text \<open>\<^verbatim>\<open>reopenTicket\<close> (lines 357-400).\<close>

definition reopenTicket ::
  "discord \<Rightarrow> js_value \<Rightarrow> manager \<Rightarrow> world \<Rightarrow> (error + text_ticket) \<times> manager \<times> world" where
  "reopenTicket env ticket m w =
     (if \<not> ready m then (Inl NOT_READY, m, w)
      else if instanceof_TextTicket (js_not ticket) then (Inl INVALID_TICKET, m, w)
      else (case ticket of
              JsTicket t \<Rightarrow>
                (case ticket_guild env w t of
                   None \<Rightarrow> (Inl TypeError, m, w)
                 | Some g \<Rightarrow>
                     (case guild_channels_resolve env g (parentId (options m)) of
                        None \<Rightarrow> (Inl INVALID_CATEGORY, m, w)
                      | Some ticketCategory \<Rightarrow>
                          if channel_type ticketCategory \<noteq> ''GUILD_CATEGORY''
                          then (Inl INVALID_CATEGORY, m, w)
                          else
                            (let ticketPermissions =
                                   [Allow (ticket_creatorId w t) ticket_permissions,
                                    Deny (roles_everyone env g) [''VIEW_CHANNEL'']]
                                   @ staff_overwrites env g (staff_roles m)
                             in (case ticket_channel env w t of
                                   None \<Rightarrow> (Inl TypeError, m, w)
                                 | Some ch \<Rightarrow>
                                     (let w1 = w\<lparr>io := io w @
                                            [ChannelEdit (channel_id ch)
                                               (Template ''ticket'' (ticket_number w t))
                                               None (Some ticketPermissions)]\<rparr>
                                      in if \<not> channel_edit_ok env ch then (Inl RemoteError, m, w1)
                                         else (case update_status ''open'' env t m w1 of
                                                 (Inl e, m2, w2) \<Rightarrow> (Inl e, m2, w2)
                                               | (Inr newTicket, m2, w2) \<Rightarrow>
                                                   (Inr newTicket, m2,
                                                    w2\<lparr>emitted := emitted w2 @
                                                         [(''ticketReopened'', newTicket)]\<rparr>)))))))
            | _ \<Rightarrow> (Inl TypeError, m, w)))"

section \<open>A concrete guild, client and store\<close>

text \<open>
  One guild \<open>g1\<close> with a ticket category \<open>cat\<close>, one user \<open>u1\<close>, one staff role, and a
  storage file holding two tickets of that guild, the first open and the second closed.
\<close>

definition ex_options :: manager_options where
  "ex_options =
     \<lparr>channelTopic = None, closedParentId = Some ''cat'', parentId = Some ''cat'',
      staffRoles = Some [''staff''], storage = Some ''tickets.json''\<rparr>"

definition ex_env :: discord where
  "ex_env =
     \<lparr>guilds_resolve = (\<lambda>i. if i = ''g1'' then Some (Guild ''g1'') else None),
      users_resolve = (\<lambda>i. if i = ''u1'' then Some (User ''u1'') else None),
      members_resolve = (\<lambda>g u. case u of None \<Rightarrow> None | Some x \<Rightarrow> Some (Member (user_id x))),
      guild_channels_resolve =
        (\<lambda>g i. if i = Some ''cat'' then Some (Channel ''cat'' ''GUILD_CATEGORY'') else None),
      channels_resolve = (\<lambda>i. Some (Channel i ''GUILD_TEXT'')),
      roles_everyone = guild_id,
      roles_resolve = (\<lambda>g r. if r = ''staff'' then Some r else None),
      channels_create = (\<lambda>g n. Some (Channel ''c3'' ''GUILD_TEXT'')),
      channel_edit_ok = (\<lambda>c. True),
      channel_delete_ok = (\<lambda>c. True),
      writeFile_ok = (\<lambda>p. True),
      readFile_ok = (\<lambda>p. True)\<rparr>"

definition ex_record1 :: raw_ticket where
  "ex_record1 =
     \<lparr>channelId = ''c1'', creatorId = ''u1'', guildId = ''g1'', number = 1,
      participants = [], status = ''open''\<rparr>"

definition ex_record2 :: raw_ticket where
  "ex_record2 =
     \<lparr>channelId = ''c2'', creatorId = ''u2'', guildId = ''g1'', number = 2,
      participants = [], status = ''closed''\<rparr>"

definition ex_world :: world where
  "ex_world =
     \<lparr>heap = (\<lambda>a. if a = 0 then ex_record1 else ex_record2),
      nextAddr = 2,
      fs = [''tickets.json'' \<mapsto> TicketArray [ex_record1, ex_record2]],
      io = [],
      emitted = []\<rparr>"

definition ex_manager :: manager where
  "ex_manager =
     \<lparr>client = JsClient, options = ex_options,
      tickets = [1 \<mapsto> TextTicket 0, 2 \<mapsto> TextTicket 1],
      rawTickets = [0, 1], ready = True\<rparr>"

text \<open>The manager between the return of the constructor and the end of \<^verbatim>\<open>_init\<close>.\<close>

definition ex_loading :: manager where
  "ex_loading =
     \<lparr>client = JsClient, options = ex_options, tickets = Map.empty,
      rawTickets = [], ready = False\<rparr>"

text \<open>A store whose only ticket has the number \<open>2 ^ 53\<close>.\<close>

definition ex_record_big :: raw_ticket where
  "ex_record_big =
     \<lparr>channelId = ''c1'', creatorId = ''u1'', guildId = ''g1'', number = 9007199254740992,
      participants = [], status = ''open''\<rparr>"

definition ex_world_big :: world where
  "ex_world_big =
     \<lparr>heap = (\<lambda>a. ex_record_big),
      nextAddr = 1,
      fs = [''tickets.json'' \<mapsto> TicketArray [ex_record_big]],
      io = [],
      emitted = []\<rparr>"

definition ex_manager_big :: manager where
  "ex_manager_big =
     \<lparr>client = JsClient, options = ex_options,
      tickets = [9007199254740992 \<mapsto> TextTicket 0],
      rawTickets = [0], ready = True\<rparr>"

text \<open>Worlds whose storage file is absent, or holds text that is no JSON.\<close>

definition ex_world_missing :: world where
  "ex_world_missing = ex_world\<lparr>fs := Map.empty\<rparr>"

definition ex_world_corrupt :: world where
  "ex_world_corrupt = ex_world\<lparr>fs := [''tickets.json'' \<mapsto> Unparseable]\<rparr>"

section \<open>Basic facts about the operations\<close>

subsection \<open>Rounding, printing and reading numbers\<close>

lemma bit_length_bounds:
  "0 < n \<Longrightarrow> 2 ^ (bit_length n - 1) \<le> n \<and> n < 2 ^ bit_length n"
proof (induction n rule: bit_length.induct)
  case (1 n)
  show ?case
  proof (cases "n = 1")
    case True
    then show ?thesis by (simp add: bit_length.simps [of 1] bit_length.simps [of 0])
  next
    case False
    with "1.prems" have pos: "0 < n div 2" by simp
    from "1.IH" "1.prems" pos
    have ih: "2 ^ (bit_length (n div 2) - 1) \<le> n div 2" "n div 2 < 2 ^ bit_length (n div 2)"
      by simp_all
    have bl: "bit_length n = Suc (bit_length (n div 2))"
      using "1.prems" by (simp add: bit_length.simps [of n])
    have bpos: "0 < bit_length (n div 2)"
      using pos by (simp add: bit_length.simps [of "n div 2"])
    then obtain k where k: "bit_length (n div 2) = Suc k"
      by (cases "bit_length (n div 2)") simp_all
    from ih k have "2 * 2 ^ k \<le> 2 * (n div 2)" by simp
    also have "\<dots> \<le> n" by simp
    finally have lo: "2 ^ (bit_length n - 1) \<le> n" by (simp add: bl k)
    from ih(2) have "n div 2 + 1 \<le> 2 ^ bit_length (n div 2)" by simp
    then have "2 * (n div 2) + 2 \<le> 2 * 2 ^ bit_length (n div 2)" by simp
    moreover have "n \<le> 2 * (n div 2) + 1" by simp
    ultimately have hi: "n < 2 ^ bit_length n" by (simp add: bl)
    from lo hi show ?thesis by simp
  qed
qed

lemma round_magnitude_small: "n < 2 ^ 53 \<Longrightarrow> round_magnitude n = n"
  by (simp add: round_magnitude_def)

lemma round_magnitude_large:
  assumes "2 ^ 53 \<le> n"
  shows "2 ^ 53 \<le> round_magnitude n"
proof -
  from assms have pos: "0 < n" by (simp add: order.strict_trans2 [of 0 "2 ^ 53"])
  define e where "e = bit_length n - 53"
  define q where "q = n div 2 ^ e"
  from bit_length_bounds [OF pos] have b: "2 ^ (bit_length n - 1) \<le> n" "n < 2 ^ bit_length n"
    by simp_all
  have bl: "53 < bit_length n"
  proof (rule ccontr)
    assume "\<not> 53 < bit_length n"
    then have "bit_length n \<le> 53" by simp
    then have "(2::int) ^ bit_length n \<le> 2 ^ 53"
      by (intro power_increasing) simp_all
    with assms b(2) show False by simp
  qed
  then have e1: "1 \<le> e" and split: "bit_length n - 1 = 52 + e"
    by (simp_all add: e_def)
  from b(1) split have "(2::int) ^ 52 * 2 ^ e \<le> n" by (simp add: power_add)
  then have q52: "2 ^ 52 \<le> q"
    unfolding q_def by (simp add: pos_imp_zdiv_pos_iff zdiv_mono1
        order.trans [OF _ zdiv_mono1 [of "2 ^ 52 * 2 ^ e" n "2 ^ e"]])
  have two: "(2::int) \<le> 2 ^ e"
    using e1 power_increasing [of 1 e "2::int"] by simp
  have ge: "q * 2 ^ e \<le> round_magnitude n"
    using assms by (simp add: round_magnitude_def Let_def e_def [symmetric] q_def [symmetric])
  have "(2::int) ^ 53 = 2 ^ 52 * 2" by simp
  also have "\<dots> \<le> q * 2 ^ e"
    using q52 two by (intro mult_mono) simp_all
  finally show ?thesis using ge by simp
qed

lemma round_double_small: "\<bar>x\<bar> < 2 ^ 53 \<Longrightarrow> round_double x = x"
  by (simp add: round_double_def round_magnitude_small mult_sgn_abs)

lemma round_magnitude_pos: "0 < n \<Longrightarrow> 0 < round_magnitude n"
  using round_magnitude_large [of n] round_magnitude_small [of n]
  by (cases "n < 2 ^ 53") auto

lemma round_double_le_0_iff: "round_double x \<le> 0 \<longleftrightarrow> x \<le> 0"
proof (cases "x = 0")
  case True
  then show ?thesis by (simp add: round_double_def round_magnitude_small)
next
  case False
  then have "0 < round_magnitude \<bar>x\<bar>" by (intro round_magnitude_pos) simp
  with False show ?thesis
    by (cases "0 < x") (simp_all add: round_double_def sgn_if mult_le_0_iff)
qed

lemma js_minus_le_0_iff: "js_minus x y \<le> 0 \<longleftrightarrow> x \<le> y"
  by (simp add: js_minus_def round_double_le_0_iff)

lemma round_double_nonneg_large:
  assumes "2 ^ 53 \<le> v"
  shows "2 ^ 53 \<le> round_double v"
proof -
  from assms have "0 < v" by (simp add: order.strict_trans2 [of 0 "2 ^ 53"])
  then show ?thesis
    using round_magnitude_large [OF assms] by (simp add: round_double_def)
qed

lemma shortest_from_nonneg: "0 \<le> x \<Longrightarrow> 0 \<le> shortest_from x p"
  by (induction p) (auto simp: Let_def pos_imp_zdiv_nonneg_iff)

lemma shortest_from_valid:
  "round_double x = x \<Longrightarrow> round_double (shortest_from x p) = x"
  by (induction p) (auto simp: Let_def)

lemma shortest_decimal_small:
  assumes "0 \<le> x" "x < 2 ^ 53"
  shows "shortest_decimal x = x"
proof -
  let ?v = "shortest_decimal x"
  have rx: "round_double x = x"
    using assms by (simp add: round_double_small)
  then have rv: "round_double ?v = x"
    by (simp add: shortest_decimal_def shortest_from_valid)
  have nn: "0 \<le> ?v"
    using assms(1) by (simp add: shortest_decimal_def shortest_from_nonneg)
  have "?v < 2 ^ 53"
  proof (rule ccontr)
    assume "\<not> ?v < 2 ^ 53"
    then have "2 ^ 53 \<le> round_double ?v" by (intro round_double_nonneg_large) simp
    with rv assms(2) show False by simp
  qed
  with nn have "round_double ?v = ?v" by (simp add: round_double_small)
  with rv show ?thesis by simp
qed

lemma parseInt_String_small:
  assumes "\<bar>x\<bar> < 2 ^ 53"
  shows "js_parseInt (js_String x) = x"
proof -
  have v: "shortest_decimal \<bar>x\<bar> = \<bar>x\<bar>"
    using assms by (simp add: shortest_decimal_small)
  have "\<bar>x\<bar> < (10::int) ^ 21"
    using assms by simp
  then show ?thesis
    using assms by (simp add: js_String_def v Let_def mult_sgn_abs round_double_small)
qed

lemma round_double_2_53: "round_double 9007199254740992 = 9007199254740992"
  by code_simp

lemma next_number_safe:
  assumes "safe_integer x"
  shows "js_plus (js_parseInt (js_String x)) 1 = x + 1"
proof -
  from assms have a: "\<bar>x\<bar> < 2 ^ 53" by (simp add: safe_integer_def)
  then have p: "js_parseInt (js_String x) = x" by (rule parseInt_String_small)
  show ?thesis
  proof (cases "x + 1 = 2 ^ 53")
    case True
    have "js_plus (js_parseInt (js_String x)) 1 = round_double (x + 1)"
      by (simp only: js_plus_def p)
    also have "\<dots> = round_double 9007199254740992"
      using True by simp
    also have "\<dots> = x + 1"
      using True by (simp add: round_double_2_53)
    finally show ?thesis .
  next
    case False
    with a have "\<bar>x + 1\<bar> < 2 ^ 53" by simp
    then show ?thesis by (simp add: js_plus_def p round_double_small)
  qed
qed

lemma next_number_2_53:
  "js_plus (js_parseInt (js_String 9007199254740992)) 1 = 9007199254740992"
  by code_simp

lemma js_String_examples:
  "js_String 1234 = Digits 1234
   \<and> js_String (- 1234) = Digits (- 1234)
   \<and> js_String 1152921504606846976 = Digits 1152921504606847000
   \<and> js_String 99999999999999991611392 = Exponential 1 23
   \<and> js_String 1267650600228229401496703205376 = Exponential 12676506002282294 30"
  by code_simp

lemma next_number_1e21:
  "js_String 1000000000000000000000 = Exponential 1 21
   \<and> js_plus (js_parseInt (js_String 1000000000000000000000)) 1 = 2"
  by code_simp

subsection \<open>Guards, arrays and persistence\<close>

lemma guard_inert: "instanceof_TextTicket (js_not v) = False"
  by (simp add: js_not_def)

lemma indexOf_range:
  "indexOf xs a < 0
   \<or> (nat (indexOf xs a) < length xs \<and> xs ! nat (indexOf xs a) = a \<and> 0 \<le> indexOf xs a)"
  by (induction xs) (auto simp: Let_def nat_add_distrib)

lemma array_assign_indexOf: "array_assign xs (indexOf xs a) a = xs"
proof (cases "indexOf xs a < 0")
  case True
  then show ?thesis by (simp add: array_assign_def)
next
  case False
  with indexOf_range [of xs a]
  have "xs ! nat (indexOf xs a) = a" by simp
  then have "xs[nat (indexOf xs a) := a] = xs"
    by (metis list_update_id)
  then show ?thesis by (simp add: array_assign_def)
qed

lemma saveRawTickets_Inr:
  assumes "saveRawTickets env m w = (Inr b, w')"
  shows "\<exists>path. storage (options m) = Some path \<and> b
           \<and> w' = w\<lparr>io := io w @ [FsWriteFile path (records m w)],
                    fs := (fs w)(path \<mapsto> TicketArray (records m w))\<rparr>"
  using assms by (auto simp: saveRawTickets_def Let_def split: option.splits if_splits)

lemma saveRawTickets_Inl:
  assumes "saveRawTickets env m w = (Inl e, w')"
  shows "e = TypeError \<or> e = FsError"
  using assms by (auto simp: saveRawTickets_def Let_def split: option.splits if_splits)

lemma update_status_Inl:
  assumes "update_status st env t m w = (Inl e, m', w')"
  shows "e = TypeError \<or> e = FsError"
  using assms
  by (auto simp: update_status_def Let_def split: prod.splits sum.splits dest: saveRawTickets_Inl)

lemma update_status_Inr:
  assumes "update_status st env t m w = (Inr t', m', w')"
  shows "\<exists>path. storage (options m) = Some path
      \<and> t' = t
      \<and> m' = m\<lparr>tickets := (tickets m)(ticket_number w t \<mapsto> t)\<rparr>
      \<and> w' = w\<lparr>heap := (heap w)(ticket_data t := (heap w (ticket_data t))\<lparr>status := st\<rparr>),
               io := io w @ [FsWriteFile path
                    (map ((heap w)(ticket_data t := (heap w (ticket_data t))\<lparr>status := st\<rparr>))
                       (rawTickets m))],
               fs := (fs w)(path \<mapsto> TicketArray
                    (map ((heap w)(ticket_data t := (heap w (ticket_data t))\<lparr>status := st\<rparr>))
                       (rawTickets m)))\<rparr>"
  using assms
  by (auto simp: update_status_def Let_def array_assign_indexOf new_TextTicket_def
      ticket_number_def records_def
      split: prod.splits sum.splits dest!: saveRawTickets_Inr)

lemmas ex_defs = ex_env_def ex_manager_def ex_world_def ex_options_def ex_record1_def
  ex_record2_def ex_loading_def ex_world_missing_def ex_world_corrupt_def

lemmas op_defs = guard_inert Let_def ticket_guild_def ticket_channel_def ticket_creatorId_def
  ticket_number_def ticket_channelId_def ticket_status_def update_status_def
  saveRawTickets_def records_def new_TextTicket_def staff_roles_def array_assign_def

lemma construct_Inr:
  assumes "construct c opts w0 = (Inr m, w)"
  shows "\<exists>path. storage (options m) = Some path \<and> path \<noteq> [] \<and> tickets m = Map.empty
     \<and> rawTickets m = [] \<and> \<not> ready m \<and> fs w = fs w0 \<and> io w = io w0 @ [FsExists path]"
  using assms
  by (auto simp: construct_def Let_def split: if_splits option.splits)

lemma set_insert_cmp: "set (insert_cmp cmp x ys) = insert x (set ys)"
  by (induction ys) auto

lemma set_sort_cmp: "set (sort_cmp cmp xs) = set xs"
  by (induction xs) (auto simp: set_insert_cmp)

lemma sort_cmp_first:
  assumes "sort_cmp cmp xs = y # ys"
    and "\<And>a b. cmp a b \<le> 0 \<longleftrightarrow> (f b :: int) \<le> f a"
  shows "y \<in> set xs \<and> (\<forall>x \<in> set xs. f x \<le> f y)"
  using assms(1)
proof (induction xs arbitrary: y ys)
  case Nil
  then show ?case by simp
next
  case (Cons x xs)
  show ?case
  proof (cases "sort_cmp cmp xs")
    case Nil
    then have "set xs = {}"
      using set_sort_cmp [of cmp xs] by simp
    with Cons.prems Nil show ?thesis by simp
  next
    case (Cons z zs)
    from Cons.IH [OF Cons] have z: "z \<in> set xs" "\<forall>x \<in> set xs. f x \<le> f z"
      by simp_all
    from Cons.prems Cons have "y = (if cmp x z \<le> 0 then x else z)"
      by (simp split: if_splits)
    then have "y = (if f z \<le> f x then x else z)"
      by (simp add: assms(2))
    with z show ?thesis by auto
  qed
qed

lemma newTicketNumber_safe:
  assumes "\<forall>r \<in> set (records m w). guildId r = guild_id g \<longrightarrow> safe_integer (number r)"
  shows "newTicketNumber m w g =
     (if {r \<in> set (records m w). guildId r = guild_id g} = {} then 1
      else 1 + Max (number ` {r \<in> set (records m w). guildId r = guild_id g}))"
proof -
  define G where "G = filter (\<lambda>a. guildId (heap w a) = guild_id g) (rawTickets m)"
  define cmp where "cmp = (\<lambda>a b. js_minus (number (heap w b)) (number (heap w a)))"
  have img: "{r \<in> set (records m w). guildId r = guild_id g} = heap w ` set G"
    by (auto simp: records_def G_def)
  have zero: "js_plus (js_parseInt (js_String 0)) 1 = 1"
    using next_number_safe [of 0] by (simp add: safe_integer_def)
  show ?thesis
  proof (cases "sort_cmp cmp G")
    case Nil
    then have "set G = {}"
      using set_sort_cmp [of cmp G] by simp
    then show ?thesis
      unfolding img
      by (simp add: newTicketNumber_def G_def [symmetric] zero)
  next
    case (Cons y ys)
    from sort_cmp_first [of cmp G y ys "\<lambda>a. number (heap w a)"] Cons
    have y: "y \<in> set G" "\<forall>x \<in> set G. number (heap w x) \<le> number (heap w y)"
      by (simp_all add: cmp_def js_minus_le_0_iff)
    then have ne: "G \<noteq> []" by auto
    from y(1) have "heap w y \<in> set (records m w)" "guildId (heap w y) = guild_id g"
      by (simp_all add: G_def records_def)
    with assms have "safe_integer (number (heap w y))" by blast
    then have nx: "js_plus (js_parseInt (js_String (number (heap w y)))) 1
                     = number (heap w y) + 1"
      by (rule next_number_safe)
    have "Max (number ` heap w ` set G) = number (heap w y)"
      using y by (intro Max_eqI) auto
    then show ?thesis
      unfolding img using ne Cons y(1) nx
      by (auto simp: newTicketNumber_def G_def [symmetric] cmp_def [symmetric])
  qed
qed

lemma newTicketNumber_ex: "newTicketNumber ex_manager ex_world (Guild ''g1'') = 3"
proof -
  have recs: "records ex_manager ex_world = [ex_record1, ex_record2]"
    by (simp add: records_def ex_manager_def ex_world_def)
  have safe: "\<forall>r \<in> set (records ex_manager ex_world).
                guildId r = guild_id (Guild ''g1'') \<longrightarrow> safe_integer (number r)"
    by (simp add: recs safe_integer_def ex_record1_def ex_record2_def)
  have set: "{r \<in> set (records ex_manager ex_world). guildId r = guild_id (Guild ''g1'')}
               = {ex_record1, ex_record2}"
    by (auto simp: recs ex_record1_def ex_record2_def)
  from newTicketNumber_safe [OF safe]
  have "newTicketNumber ex_manager ex_world (Guild ''g1'')
          = (if {ex_record1, ex_record2} = {} then 1
             else 1 + Max (number ` {ex_record1, ex_record2}))"
    unfolding set .
  then show ?thesis by (simp add: ex_record1_def ex_record2_def)
qed

lemma newTicketNumber_big:
  "newTicketNumber ex_manager_big ex_world_big (Guild ''g1'') = 9007199254740992"
  by (simp add: newTicketNumber_def ex_manager_big_def ex_world_big_def ex_record_big_def
      next_number_2_53)

lemma createTicket_Inr:
  assumes "createTicket env guild user m w = (Inr t, m', w')"
  shows "\<exists>g u ch path. guilds_resolve env guild = Some g \<and> users_resolve env user = Some u
     \<and> channels_create env g (Template ''ticket'' (newTicketNumber m w g)) = Some ch
     \<and> storage (options m) = Some path
     \<and> t = TextTicket (nextAddr w)
     \<and> rawTickets m' = rawTickets m @ [nextAddr w]
     \<and> heap w' = (heap w)(nextAddr w :=
           \<lparr>channelId = channel_id ch, creatorId = user_id u, guildId = guild_id g,
            number = newTicketNumber m w g, participants = [], status = ''open''\<rparr>)
     \<and> fs w' path = Some (TicketArray (map (heap w') (rawTickets m')))"
  using assms
  by (auto simp: createTicket_def Let_def new_TextTicket_def records_def
      split: if_splits js_value.splits option.splits prod.splits sum.splits
      dest!: saveRawTickets_Inr)

lemma createTicket_ex:
  "fst (createTicket ex_env ''g1'' ''u1'' ex_manager ex_world) = Inr (TextTicket 2)"
  by (simp add: createTicket_def op_defs ex_defs)

lemma createTicket_big:
  "fst (createTicket ex_env ''g1'' ''u1'' ex_manager_big ex_world_big) = Inr (TextTicket 1)"
  by (simp add: createTicket_def op_defs ex_env_def ex_options_def ex_manager_big_def
      ex_world_big_def)

lemma records_ex: "records ex_manager ex_world = [ex_record1, ex_record2]"
  by (simp add: records_def ex_defs)

lemma construct_ex_missing:
  "construct JsClient (Some ex_options) ex_world_missing
     = (Inr ex_loading, ex_world_missing\<lparr>io := [FsExists ''tickets.json'']\<rparr>)"
  by (simp add: construct_def js_not_def ex_defs)

lemma construct_ex_corrupt:
  "construct JsClient (Some ex_options) ex_world_corrupt
     = (Inr ex_loading, ex_world_corrupt\<lparr>io := [FsExists ''tickets.json'']\<rparr>)"
  by (simp add: construct_def js_not_def ex_defs)

subsection \<open>References point to allocated objects\<close>

text \<open>
  The references a manager holds are below \<open>nextAddr\<close>: the initial load allocates the
  objects it returns, and every operation keeps the property, whatever its result.
\<close>

lemma alloc_all_fresh:
  assumes "alloc_all rs w = (as, w')"
  shows "nextAddr w \<le> nextAddr w' \<and> (\<forall>a \<in> set as. nextAddr w \<le> a \<and> a < nextAddr w')"
  using assms
proof (induction rs arbitrary: w as w')
  case Nil
  then show ?case by simp
next
  case (Cons r rs)
  obtain as1 w1 where
    rec: "alloc_all rs (w\<lparr>heap := (heap w)(nextAddr w := r), nextAddr := Suc (nextAddr w)\<rparr>)
            = (as1, w1)"
    by (cases "alloc_all rs (w\<lparr>heap := (heap w)(nextAddr w := r), nextAddr := Suc (nextAddr w)\<rparr>)")
  with Cons.prems have eq: "as = nextAddr w # as1" "w' = w1"
    by (simp_all add: Let_def)
  from Cons.IH [OF rec] have
    "Suc (nextAddr w) \<le> nextAddr w1" "\<forall>a \<in> set as1. Suc (nextAddr w) \<le> a \<and> a < nextAddr w1"
    by simp_all
  with eq show ?case by auto
qed

lemma saveRawTickets_nextAddr:
  assumes "saveRawTickets env m w = (r, w')"
  shows "nextAddr w' = nextAddr w"
  using assms by (auto simp: saveRawTickets_def Let_def split: option.splits if_splits)

lemma update_status_allocated:
  assumes "update_status st env t m w = (r, m', w')"
  shows "rawTickets m' = rawTickets m \<and> nextAddr w' = nextAddr w"
  using assms
  by (auto simp: update_status_def Let_def array_assign_indexOf
      split: prod.splits sum.splits dest: saveRawTickets_nextAddr)

lemma init_allocated:
  assumes "init env m w = (r, m', w')"
    and "\<forall>a \<in> set (rawTickets m). a < nextAddr w"
  shows "\<forall>a \<in> set (rawTickets m'). a < nextAddr w'"
  using assms
  by (auto simp: init_def loadAllTickets_def Let_def
      split: prod.splits sum.splits option.splits if_splits file_content.splits
      dest!: alloc_all_fresh)

lemma createTicket_refs:
  assumes "createTicket env guild user m w = (r, m', w')"
  shows "(rawTickets m' = rawTickets m \<and> nextAddr w' = nextAddr w)
       \<or> (rawTickets m' = rawTickets m @ [nextAddr w] \<and> nextAddr w' = Suc (nextAddr w))"
  using assms
  by (auto simp: createTicket_def Let_def
      split: prod.splits sum.splits option.splits if_splits js_value.splits
      dest!: saveRawTickets_nextAddr)

lemma createTicket_allocated:
  assumes "createTicket env guild user m w = (r, m', w')"
    and "\<forall>a \<in> set (rawTickets m). a < nextAddr w"
  shows "\<forall>a \<in> set (rawTickets m'). a < nextAddr w'"
  using createTicket_refs [OF assms(1)] assms(2) by (auto simp: less_Suc_eq)

lemma closeTicket_allocated:
  assumes "closeTicket env ticket m w = (r, m', w')"
    and "\<forall>a \<in> set (rawTickets m). a < nextAddr w"
  shows "\<forall>a \<in> set (rawTickets m'). a < nextAddr w'"
  using assms
  by (auto simp: closeTicket_def Let_def
      split: prod.splits sum.splits option.splits if_splits js_value.splits
      dest!: update_status_allocated)

lemma reopenTicket_allocated:
  assumes "reopenTicket env ticket m w = (r, m', w')"
    and "\<forall>a \<in> set (rawTickets m). a < nextAddr w"
  shows "\<forall>a \<in> set (rawTickets m'). a < nextAddr w'"
  using assms
  by (auto simp: reopenTicket_def Let_def
      split: prod.splits sum.splits option.splits if_splits js_value.splits
      dest!: update_status_allocated)

lemma renameTicket_allocated:
  assumes "renameTicket env ticket newName m w = (r, m', w')"
    and "\<forall>a \<in> set (rawTickets m). a < nextAddr w"
  shows "\<forall>a \<in> set (rawTickets m'). a < nextAddr w'"
  using assms
  by (auto simp: renameTicket_def Let_def
      split: prod.splits sum.splits option.splits if_splits js_value.splits)

lemma deleteTicket_allocated:
  assumes "deleteTicket env ticket m w = (r, m', w')"
    and "\<forall>a \<in> set (rawTickets m). a < nextAddr w"
  shows "\<forall>a \<in> set (rawTickets m'). a < nextAddr w'"
  using assms
  by (auto simp: deleteTicket_def Let_def
      split: prod.splits sum.splits option.splits if_splits js_value.splits
      dest!: saveRawTickets_nextAddr)

section \<open>Readiness\<close>

text \<open>
  Claim C1, as amended. \<^verbatim>\<open>createTicket\<close>, \<^verbatim>\<open>closeTicket\<close>, \<^verbatim>\<open>reopenTicket\<close>,
  \<^verbatim>\<open>renameTicket\<close> and \<^verbatim>\<open>deleteTicket\<close>, invoked while \<^verbatim>\<open>ready\<close> is false, fail with
  the "not ready" error and leave the manager and the world as they were: no remote
  call, no store write, no event. \<^verbatim>\<open>checkDoubleTickets\<close> has no readiness guard: also
  while \<^verbatim>\<open>ready\<close> is false it returns its boolean answer over the in-memory records,
  true exactly when one of them has the given guild and creator.
\<close>

theorem not_ready_rejects_without_io:
  assumes "\<not> ready m"
  shows "createTicket env guild user m w = (Inl NOT_READY, m, w)
     \<and> closeTicket env ticket m w = (Inl NOT_READY, m, w)
     \<and> reopenTicket env ticket m w = (Inl NOT_READY, m, w)
     \<and> renameTicket env ticket newName m w = (Inl NOT_READY, m, w)
     \<and> deleteTicket env ticket m w = (Inl NOT_READY, m, w)
     \<and> checkDoubleTickets m w gid uid
         = Inr (\<exists>r \<in> set (records m w). guildId r = gid \<and> creatorId r = uid)"
proof -
  have "checkDoubleTickets m w gid uid
          = Inr (\<exists>r \<in> set (records m w). guildId r = gid \<and> creatorId r = uid)"
    by (auto simp: checkDoubleTickets_def records_def find_None_iff)
  with assms show ?thesis
    by (simp add: createTicket_def closeTicket_def reopenTicket_def renameTicket_def
        deleteTicket_def)
qed

theorem not_ready_rejects_without_io_witness:
  "\<not> ready (ex_manager\<lparr>ready := False\<rparr>)
   \<and> createTicket ex_env ''g1'' ''u1'' (ex_manager\<lparr>ready := False\<rparr>) ex_world
       = (Inl NOT_READY, ex_manager\<lparr>ready := False\<rparr>, ex_world)
   \<and> deleteTicket ex_env (JsTicket (TextTicket 0)) (ex_manager\<lparr>ready := False\<rparr>) ex_world
       = (Inl NOT_READY, ex_manager\<lparr>ready := False\<rparr>, ex_world)
   \<and> checkDoubleTickets (ex_manager\<lparr>ready := False\<rparr>) ex_world ''g1'' ''u1'' = Inr True
   \<and> checkDoubleTickets (ex_manager\<lparr>ready := False\<rparr>) ex_world ''g1'' ''u9'' = Inr False"
proof -
  have nr: "\<not> ready (ex_manager\<lparr>ready := False\<rparr>)" by simp
  have recs: "records (ex_manager\<lparr>ready := False\<rparr>) ex_world = [ex_record1, ex_record2]"
    by (simp add: records_def ex_manager_def ex_world_def)
  from not_ready_rejects_without_io [OF nr, of ex_env "''g1''" "''u1''" ex_world
      "JsTicket (TextTicket 0)" _ "''g1''" "''u1''"]
    not_ready_rejects_without_io [OF nr, of ex_env "''g1''" "''u1''" ex_world
      "JsTicket (TextTicket 0)" _ "''g1''" "''u9''"]
  show ?thesis
    by (simp add: recs ex_record1_def ex_record2_def)
qed

text \<open>
  Claim C1 as stated fails for \<^verbatim>\<open>checkDoubleTickets\<close>: on a manager that is not ready
  it does not fail with "not ready".
\<close>

theorem checkDoubleTickets_not_ready_counterexample:
  "\<not> ready ex_loading
   \<and> checkDoubleTickets ex_loading ex_world ''g1'' ''u1'' \<noteq> Inl NOT_READY"
  by (simp add: ex_loading_def checkDoubleTickets_def)

section \<open>The type guards\<close>

text \<open>
  Claim C9. For every argument value, the \<^verbatim>\<open>instanceof\<close> guard of \<^verbatim>\<open>closeTicket\<close>,
  \<^verbatim>\<open>deleteTicket\<close>, \<^verbatim>\<open>renameTicket\<close> and \<^verbatim>\<open>reopenTicket\<close> never rejects: the guard's
  condition is false for every value, and none of the four operations ever fails with
  the "invalid ticket" error.
\<close>

theorem instanceof_guard_never_rejects:
  "\<not> instanceof_TextTicket (js_not ticket)
   \<and> fst (closeTicket env ticket m w) \<noteq> Inl INVALID_TICKET
   \<and> fst (deleteTicket env ticket m w) \<noteq> Inl INVALID_TICKET
   \<and> fst (renameTicket env ticket newName m w) \<noteq> Inl INVALID_TICKET
   \<and> fst (reopenTicket env ticket m w) \<noteq> Inl INVALID_TICKET"
proof -
  have c: "fst (closeTicket env ticket m w) \<noteq> Inl INVALID_TICKET"
    by (auto simp: closeTicket_def guard_inert Let_def
        split: js_value.splits option.splits prod.splits sum.splits dest: update_status_Inl)
  have d: "fst (deleteTicket env ticket m w) \<noteq> Inl INVALID_TICKET"
    by (auto simp: deleteTicket_def guard_inert Let_def
        split: js_value.splits option.splits prod.splits sum.splits dest: saveRawTickets_Inl)
  have r: "fst (renameTicket env ticket newName m w) \<noteq> Inl INVALID_TICKET"
    by (auto simp: renameTicket_def guard_inert Let_def
        split: js_value.splits option.splits prod.splits sum.splits)
  have o: "fst (reopenTicket env ticket m w) \<noteq> Inl INVALID_TICKET"
    by (auto simp: reopenTicket_def guard_inert Let_def
        split: js_value.splits option.splits prod.splits sum.splits dest: update_status_Inl)
  show ?thesis using c d r o by (simp add: guard_inert)
qed

text \<open>With \<^verbatim>\<open>null\<close> the guard lets the call through and the next property read throws.\<close>

theorem instanceof_guard_never_rejects_witness:
  "fst (closeTicket ex_env JsNull ex_manager ex_world) \<noteq> Inl INVALID_TICKET
   \<and> fst (deleteTicket ex_env JsObject ex_manager ex_world) \<noteq> Inl INVALID_TICKET
   \<and> closeTicket ex_env JsNull ex_manager ex_world = (Inl TypeError, ex_manager, ex_world)"
  using instanceof_guard_never_rejects [of JsNull ex_env ex_manager ex_world]
    instanceof_guard_never_rejects [of JsObject ex_env ex_manager ex_world]
  by (simp add: closeTicket_def js_not_def ex_manager_def)

section \<open>Construction\<close>

lemma construct_falsy_client:
  assumes "\<not> truthy c"
  shows "construct c opts w = (Inl INVALID_CLIENT, w)"
  using assms by (simp add: construct_def)

lemma construct_missing_options:
  assumes "opts = None \<or> (\<exists>opt. opts = Some opt \<and>
              (parentId opt = None \<or> parentId opt = Some [] \<or> storage opt = None
               \<or> storage opt = Some []))"
    and "truthy c"
  shows "construct c opts w = (Inl MISSING_OPTIONS, w)"
  using assms
  by (auto simp: construct_def js_not_def split: option.splits)

text \<open>
  Claim C8 says that construction throws before any I/O whenever no valid client
  handle is supplied. The constructor rejects falsy clients only
  (\<open>construct_falsy_client\<close>): given a plain object, which is no \<^verbatim>\<open>Discord.Client\<close>, and
  complete options, it returns a manager and has issued the \<^verbatim>\<open>exists\<close> request of the
  initial load.
\<close>

theorem construct_accepts_non_client:
  "\<not> instanceof_Client JsObject
   \<and> construct JsObject (Some ex_options) ex_world_missing
       = (Inr (ex_loading\<lparr>client := JsObject\<rparr>),
          ex_world_missing\<lparr>io := [FsExists ''tickets.json'']\<rparr>)"
  by (simp add: construct_def js_not_def ex_options_def ex_loading_def ex_world_missing_def
      ex_world_def)

theorem construct_accepts_non_client_witness:
  "fst (construct JsObject (Some ex_options) ex_world_missing) \<noteq> Inl INVALID_CLIENT
   \<and> io (snd (construct JsObject (Some ex_options) ex_world_missing))
       = [FsExists ''tickets.json'']"
  using construct_accepts_non_client by simp

section \<open>Creating a ticket\<close>

text \<open>
  Claim C7 says that \<^verbatim>\<open>createTicket\<close> fails with the "not resolvable" error whenever
  the guild, the user or the member does not resolve. For a guild that does not
  resolve, the code throws a \<^verbatim>\<open>TypeError\<close> instead: it reads
  \<^verbatim>\<open>resolvedGuild.members\<close> before it tests \<^verbatim>\<open>resolvedGuild\<close>.
\<close>

theorem createTicket_unresolved_guild_TypeError:
  "guilds_resolve ex_env ''g0'' = None
   \<and> createTicket ex_env ''g0'' ''u1'' ex_manager ex_world = (Inl TypeError, ex_manager, ex_world)"
  by (simp add: createTicket_def ex_env_def ex_manager_def)

text \<open>
  Claim C2, as amended. When the numbers of the existing records of the resolved guild
  are safe integers (at most \<open>2 ^ 53 - 1\<close> in absolute value), a successful
  \<^verbatim>\<open>createTicket\<close> gives the new ticket the number \<open>1 + max\<close> over the numbers of the
  existing records whose \<^verbatim>\<open>guildId\<close> is the id of the resolved guild, and \<open>1\<close> when
  there is no such record.
\<close>

theorem createTicket_number:
  assumes "createTicket env guild user m w = (Inr t, m', w')"
    and "guilds_resolve env guild = Some g"
    and "\<forall>r \<in> set (records m w). guildId r = guild_id g \<longrightarrow> safe_integer (number r)"
  shows "ticket_number w' t =
         (if {r \<in> set (records m w). guildId r = guild_id g} = {} then 1
          else 1 + Max (number ` {r \<in> set (records m w). guildId r = guild_id g}))"
proof -
  from createTicket_Inr [OF assms(1)] assms(2) obtain u ch where
    t: "t = TextTicket (nextAddr w)" and
    h: "heap w' = (heap w)(nextAddr w :=
           \<lparr>channelId = channel_id ch, creatorId = user_id u, guildId = guild_id g,
            number = newTicketNumber m w g, participants = [], status = ''open''\<rparr>)"
    by auto
  have "ticket_number w' t = newTicketNumber m w g"
    by (simp add: ticket_number_def t h)
  then show ?thesis by (simp add: newTicketNumber_safe [OF assms(3)])
qed

theorem createTicket_number_witness:
  "list_all (\<lambda>r. safe_integer (number r)) (records ex_manager ex_world)
   \<and> guilds_resolve ex_env ''g1'' = Some (Guild ''g1'')
   \<and> fst (createTicket ex_env ''g1'' ''u1'' ex_manager ex_world) = Inr (TextTicket 2)
   \<and> ticket_number (snd (snd (createTicket ex_env ''g1'' ''u1'' ex_manager ex_world)))
        (TextTicket 2) = 3"
proof -
  let ?res = "createTicket ex_env ''g1'' ''u1'' ex_manager ex_world"
  have ok: "?res = (Inr (TextTicket 2), fst (snd ?res), snd (snd ?res))"
    using createTicket_ex by (metis prod.collapse)
  have g: "guilds_resolve ex_env ''g1'' = Some (Guild ''g1'')"
    by (simp add: ex_env_def)
  have all: "\<forall>r \<in> set (records ex_manager ex_world). safe_integer (number r)"
    by (simp add: records_ex safe_integer_def ex_record1_def ex_record2_def)
  then have safe: "\<forall>r \<in> set (records ex_manager ex_world).
                guildId r = guild_id (Guild ''g1'') \<longrightarrow> safe_integer (number r)"
    by blast
  have set: "{r \<in> set (records ex_manager ex_world). guildId r = guild_id (Guild ''g1'')}
               = {ex_record1, ex_record2}"
    by (auto simp: records_ex ex_record1_def ex_record2_def)
  from createTicket_number [OF ok g safe]
  have "ticket_number (snd (snd ?res)) (TextTicket 2)
          = (if {ex_record1, ex_record2} = {} then 1
             else 1 + Max (number ` {ex_record1, ex_record2}))"
    unfolding set .
  then have "ticket_number (snd (snd ?res)) (TextTicket 2) = 3"
    by (simp add: ex_record1_def ex_record2_def)
  with all g createTicket_ex show ?thesis
    by (simp add: list_all_iff)
qed

text \<open>
  Claim C2 as stated, for every manager state, fails where the highest number of the
  guild is no safe integer. With the single record of number \<open>2 ^ 53\<close>,
  \<^verbatim>\<open>parseInt(String(ticketNumber)) + 1\<close> is \<open>2 ^ 53 + 1\<close> rounded to a double, which is
  \<open>2 ^ 53\<close> again: the new ticket gets the number of the existing one. (From
  \<open>10 ^ 21\<close> on, \<^verbatim>\<open>String\<close> prints the exponent form and \<^verbatim>\<open>parseInt\<close> reads its first
  digit: \<open>next_number_1e21\<close>.)
\<close>

theorem createTicket_number_counterexample:
  "records ex_manager_big ex_world_big = [ex_record_big]
   \<and> guildId ex_record_big = ''g1''
   \<and> number ex_record_big = 9007199254740992
   \<and> guilds_resolve ex_env ''g1'' = Some (Guild ''g1'')
   \<and> fst (createTicket ex_env ''g1'' ''u1'' ex_manager_big ex_world_big) = Inr (TextTicket 1)
   \<and> ticket_number (snd (snd (createTicket ex_env ''g1'' ''u1'' ex_manager_big ex_world_big)))
        (TextTicket 1) = 9007199254740992
   \<and> ticket_number (snd (snd (createTicket ex_env ''g1'' ''u1'' ex_manager_big ex_world_big)))
        (TextTicket 1) \<noteq> 1 + number ex_record_big"
proof -
  let ?res = "createTicket ex_env ''g1'' ''u1'' ex_manager_big ex_world_big"
  have ok: "?res = (Inr (TextTicket 1), fst (snd ?res), snd (snd ?res))"
    using createTicket_big by (metis prod.collapse)
  have g: "guilds_resolve ex_env ''g1'' = Some (Guild ''g1'')"
    by (simp add: ex_env_def)
  from createTicket_Inr [OF ok] g obtain u ch where
    h: "heap (snd (snd ?res)) = (heap ex_world_big)(nextAddr ex_world_big :=
           \<lparr>channelId = channel_id ch, creatorId = user_id u, guildId = guild_id (Guild ''g1''),
            number = newTicketNumber ex_manager_big ex_world_big (Guild ''g1''),
            participants = [], status = ''open''\<rparr>)"
    by auto
  have na: "nextAddr ex_world_big = 1"
    by (simp add: ex_world_big_def)
  have n: "ticket_number (snd (snd ?res)) (TextTicket 1) = 9007199254740992"
    by (simp add: ticket_number_def h na newTicketNumber_big)
  have r: "records ex_manager_big ex_world_big = [ex_record_big]"
    by (simp add: records_def ex_manager_big_def ex_world_big_def)
  from n r g createTicket_big show ?thesis
    by (simp add: ex_record_big_def)
qed

text \<open>
  Claim C3. After a successful \<^verbatim>\<open>createTicket\<close> the storage file holds exactly the
  records that were in memory before the call, in their order, plus one new record at
  the end, whose status is \<^verbatim>\<open>"open"\<close> and whose participants list is empty. The
  references of the manager point to objects allocated earlier (below \<open>nextAddr\<close>), as
  every reference to a JS object does.
\<close>

theorem createTicket_appends_record:
  assumes "createTicket env guild user m w = (Inr t, m', w')"
    and "\<forall>a \<in> set (rawTickets m). a < nextAddr w"
  shows "\<exists>path r. storage (options m) = Some path
     \<and> fs w' path = Some (TicketArray (records m w @ [r]))
     \<and> records m' w' = records m w @ [r]
     \<and> r = heap w' (ticket_data t)
     \<and> status r = ''open'' \<and> participants r = []"
proof -
  from createTicket_Inr [OF assms(1)] obtain g u ch path where
    p: "storage (options m) = Some path" and
    t: "t = TextTicket (nextAddr w)" and
    r: "rawTickets m' = rawTickets m @ [nextAddr w]" and
    h: "heap w' = (heap w)(nextAddr w :=
           \<lparr>channelId = channel_id ch, creatorId = user_id u, guildId = guild_id g,
            number = newTicketNumber m w g, participants = [], status = ''open''\<rparr>)" and
    f: "fs w' path = Some (TicketArray (map (heap w') (rawTickets m')))"
    by blast
  have old: "map (heap w') (rawTickets m) = map (heap w) (rawTickets m)"
    using assms(2) by (auto simp: h)
  have recs: "records m' w' = records m w @ [heap w' (ticket_data t)]"
    by (simp add: records_def r old t)
  show ?thesis
    using p f recs by (simp add: records_def t h)
qed

theorem createTicket_appends_record_witness:
  "list_all (\<lambda>a. a < nextAddr ex_world) (rawTickets ex_manager)
   \<and> fst (createTicket ex_env ''g1'' ''u1'' ex_manager ex_world) = Inr (TextTicket 2)
   \<and> fs (snd (snd (createTicket ex_env ''g1'' ''u1'' ex_manager ex_world))) ''tickets.json''
       = Some (TicketArray [ex_record1, ex_record2,
           \<lparr>channelId = ''c3'', creatorId = ''u1'', guildId = ''g1'', number = 3,
            participants = [], status = ''open''\<rparr>])"
proof -
  let ?res = "createTicket ex_env ''g1'' ''u1'' ex_manager ex_world"
  have ok: "?res = (Inr (TextTicket 2), fst (snd ?res), snd (snd ?res))"
    using createTicket_ex by (metis prod.collapse)
  have wf: "\<forall>a \<in> set (rawTickets ex_manager). a < nextAddr ex_world"
    by (simp add: ex_defs)
  from createTicket_appends_record [OF ok wf] obtain path r where
    p: "storage (options ex_manager) = Some path" and
    f: "fs (snd (snd ?res)) path = Some (TicketArray (records ex_manager ex_world @ [r]))" and
    r: "r = heap (snd (snd ?res)) (ticket_data (TextTicket 2))"
    by blast
  from p have path: "path = ''tickets.json''"
    by (simp add: ex_defs)
  from createTicket_Inr [OF ok] obtain g u ch where
    g: "guilds_resolve ex_env ''g1'' = Some g" and
    u: "users_resolve ex_env ''u1'' = Some u" and
    ch: "channels_create ex_env g (Template ''ticket'' (newTicketNumber ex_manager ex_world g))
           = Some ch" and
    h: "heap (snd (snd ?res)) = (heap ex_world)(nextAddr ex_world :=
           \<lparr>channelId = channel_id ch, creatorId = user_id u, guildId = guild_id g,
            number = newTicketNumber ex_manager ex_world g, participants = [],
            status = ''open''\<rparr>)"
    by blast
  from g u ch have "g = Guild ''g1''" "u = User ''u1''" "ch = Channel ''c3'' ''GUILD_TEXT''"
    by (auto simp: ex_env_def)
  moreover have "nextAddr ex_world = 2"
    by (simp add: ex_world_def)
  ultimately have "heap (snd (snd ?res)) 2 =
          \<lparr>channelId = ''c3'', creatorId = ''u1'', guildId = ''g1'', number = 3,
            participants = [], status = ''open''\<rparr>"
    using h by (simp add: newTicketNumber_ex)
  with f r path wf createTicket_ex show ?thesis
    by (simp add: records_ex list_all_iff)
qed

section \<open>Closing and reopening\<close>

text \<open>
  Claim C4. After a successful \<^verbatim>\<open>closeTicket\<close> on an open ticket whose record is in
  the manager's list, the record's status is \<^verbatim>\<open>"closed"\<close>, the returned entity has the
  number of the argument, and the storage file holds the records of before with the
  status of that record set to \<^verbatim>\<open>"closed"\<close> and nothing else changed: the same
  length, every other record as it was.
\<close>

theorem closeTicket_flips_status:
  assumes "closeTicket env (JsTicket t) m w = (Inr t', m', w')"
    and "ticket_data t \<in> set (rawTickets m)"
    and "ticket_status w t = ''open''"
  shows "ticket_status w' t = ''closed''
     \<and> heap w' (ticket_data t) \<in> set (records m' w')
     \<and> ticket_number w' t' = ticket_number w t
     \<and> length (records m' w') = length (records m w)
     \<and> records m' w'
         = map (\<lambda>a. if a = ticket_data t then (heap w a)\<lparr>status := ''closed''\<rparr> else heap w a)
             (rawTickets m)
     \<and> (\<exists>path. storage (options m) = Some path
            \<and> fs w' path = Some (TicketArray (records m' w')))"
proof -
  from assms(1) obtain path where
    p: "storage (options m) = Some path" and
    t': "t' = t" and
    r: "rawTickets m' = rawTickets m" and
    h: "heap w' = (heap w)(ticket_data t := (heap w (ticket_data t))\<lparr>status := ''closed''\<rparr>)" and
    f: "fs w' path = Some (TicketArray (map (heap w') (rawTickets m)))"
    by (auto simp: closeTicket_def guard_inert Let_def
        split: if_splits option.splits prod.splits sum.splits
        dest!: update_status_Inr)
  have recs: "records m' w'
         = map (\<lambda>a. if a = ticket_data t then (heap w a)\<lparr>status := ''closed''\<rparr> else heap w a)
             (rawTickets m)"
    by (simp add: records_def r h)
  have mem: "heap w' (ticket_data t) \<in> set (records m' w')"
    using assms(2) by (simp add: records_def r)
  show ?thesis
    using p t' f recs mem
    by (simp add: ticket_status_def ticket_number_def h records_def r)
qed

theorem closeTicket_flips_status_witness:
  "0 \<in> set (rawTickets ex_manager)
   \<and> ticket_status ex_world (TextTicket 0) = ''open''
   \<and> fst (closeTicket ex_env (JsTicket (TextTicket 0)) ex_manager ex_world) = Inr (TextTicket 0)
   \<and> fs (snd (snd (closeTicket ex_env (JsTicket (TextTicket 0)) ex_manager ex_world)))
        ''tickets.json''
       = Some (TicketArray [ex_record1\<lparr>status := ''closed''\<rparr>, ex_record2])"
proof -
  let ?res = "closeTicket ex_env (JsTicket (TextTicket 0)) ex_manager ex_world"
  have c: "fst ?res = Inr (TextTicket 0)"
    by (simp add: closeTicket_def op_defs ex_defs)
  then have ok: "?res = (Inr (TextTicket 0), fst (snd ?res), snd (snd ?res))"
    by (metis prod.collapse)
  have mem: "ticket_data (TextTicket 0) \<in> set (rawTickets ex_manager)"
    and opn: "ticket_status ex_world (TextTicket 0) = ''open''"
    by (simp_all add: ticket_status_def ex_defs)
  from closeTicket_flips_status [OF ok mem opn] obtain path where
    p: "storage (options ex_manager) = Some path" and
    f: "fs (snd (snd ?res)) path = Some (TicketArray (records (fst (snd ?res)) (snd (snd ?res))))" and
    r: "records (fst (snd ?res)) (snd (snd ?res))
         = map (\<lambda>a. if a = ticket_data (TextTicket 0)
                     then (heap ex_world a)\<lparr>status := ''closed''\<rparr> else heap ex_world a)
             (rawTickets ex_manager)"
    by blast
  from p have path: "path = ''tickets.json''"
    by (simp add: ex_defs)
  have "map (\<lambda>a. if a = ticket_data (TextTicket 0)
                     then (heap ex_world a)\<lparr>status := ''closed''\<rparr> else heap ex_world a)
             (rawTickets ex_manager) = [ex_record1\<lparr>status := ''closed''\<rparr>, ex_record2]"
    by (simp add: ex_manager_def ex_world_def)
  with f r path c mem opn show ?thesis by simp
qed

text \<open>
  Claim C10. A successful \<^verbatim>\<open>closeTicket\<close> or \<^verbatim>\<open>reopenTicket\<close> writes the status
  through the reference the argument holds: the list of references is unchanged, the
  store differs from the old one only in the status field of the argument's record, the
  returned entity holds the same reference, and the argument entity reads the new
  status.
\<close>

theorem status_change_in_place:
  "(closeTicket env ticket m w = (Inr t', m', w') \<longrightarrow>
      (\<exists>t. ticket = JsTicket t
         \<and> rawTickets m' = rawTickets m
         \<and> heap w' = (heap w)(ticket_data t := (heap w (ticket_data t))\<lparr>status := ''closed''\<rparr>)
         \<and> ticket_data t' = ticket_data t
         \<and> ticket_status w' t = ''closed''))
   \<and> (reopenTicket env ticket m w = (Inr t', m', w') \<longrightarrow>
      (\<exists>t. ticket = JsTicket t
         \<and> rawTickets m' = rawTickets m
         \<and> heap w' = (heap w)(ticket_data t := (heap w (ticket_data t))\<lparr>status := ''open''\<rparr>)
         \<and> ticket_data t' = ticket_data t
         \<and> ticket_status w' t = ''open''))"
proof (intro conjI impI)
  assume "closeTicket env ticket m w = (Inr t', m', w')"
  then show "\<exists>t. ticket = JsTicket t
         \<and> rawTickets m' = rawTickets m
         \<and> heap w' = (heap w)(ticket_data t := (heap w (ticket_data t))\<lparr>status := ''closed''\<rparr>)
         \<and> ticket_data t' = ticket_data t
         \<and> ticket_status w' t = ''closed''"
    by (auto simp: closeTicket_def guard_inert Let_def ticket_status_def
        split: if_splits js_value.splits option.splits prod.splits sum.splits
        dest!: update_status_Inr)
next
  assume "reopenTicket env ticket m w = (Inr t', m', w')"
  then show "\<exists>t. ticket = JsTicket t
         \<and> rawTickets m' = rawTickets m
         \<and> heap w' = (heap w)(ticket_data t := (heap w (ticket_data t))\<lparr>status := ''open''\<rparr>)
         \<and> ticket_data t' = ticket_data t
         \<and> ticket_status w' t = ''open''"
    by (auto simp: reopenTicket_def guard_inert Let_def ticket_status_def
        split: if_splits js_value.splits option.splits prod.splits sum.splits
        dest!: update_status_Inr)
qed

theorem status_change_in_place_witness:
  "closeTicket ex_env (JsTicket (TextTicket 0)) ex_manager ex_world
     = (Inr (TextTicket 0),
        fst (snd (closeTicket ex_env (JsTicket (TextTicket 0)) ex_manager ex_world)),
        snd (snd (closeTicket ex_env (JsTicket (TextTicket 0)) ex_manager ex_world)))
   \<and> ticket_status ex_world (TextTicket 0) = ''open''
   \<and> ticket_status (snd (snd (closeTicket ex_env (JsTicket (TextTicket 0)) ex_manager ex_world)))
        (TextTicket 0) = ''closed''
   \<and> reopenTicket ex_env (JsTicket (TextTicket 1)) ex_manager ex_world
     = (Inr (TextTicket 1),
        fst (snd (reopenTicket ex_env (JsTicket (TextTicket 1)) ex_manager ex_world)),
        snd (snd (reopenTicket ex_env (JsTicket (TextTicket 1)) ex_manager ex_world)))
   \<and> ticket_status ex_world (TextTicket 1) = ''closed''
   \<and> ticket_status (snd (snd (reopenTicket ex_env (JsTicket (TextTicket 1)) ex_manager ex_world)))
        (TextTicket 1) = ''open''"
proof -
  have c: "fst (closeTicket ex_env (JsTicket (TextTicket 0)) ex_manager ex_world)
             = Inr (TextTicket 0)"
    by (simp add: closeTicket_def op_defs ex_defs)
  have r: "fst (reopenTicket ex_env (JsTicket (TextTicket 1)) ex_manager ex_world)
             = Inr (TextTicket 1)"
    by (simp add: reopenTicket_def op_defs ex_defs)
  have c': "closeTicket ex_env (JsTicket (TextTicket 0)) ex_manager ex_world
     = (Inr (TextTicket 0),
        fst (snd (closeTicket ex_env (JsTicket (TextTicket 0)) ex_manager ex_world)),
        snd (snd (closeTicket ex_env (JsTicket (TextTicket 0)) ex_manager ex_world)))"
    using c by (metis prod.collapse)
  have r': "reopenTicket ex_env (JsTicket (TextTicket 1)) ex_manager ex_world
     = (Inr (TextTicket 1),
        fst (snd (reopenTicket ex_env (JsTicket (TextTicket 1)) ex_manager ex_world)),
        snd (snd (reopenTicket ex_env (JsTicket (TextTicket 1)) ex_manager ex_world)))"
    using r by (metis prod.collapse)
  have o: "ticket_status ex_world (TextTicket 0) = ''open''"
    "ticket_status ex_world (TextTicket 1) = ''closed''"
    by (simp_all add: ticket_status_def ex_defs)
  from status_change_in_place [of ex_env "JsTicket (TextTicket 0)" ex_manager ex_world
      "TextTicket 0" _ _] c'
  have 1: "ticket_status (snd (snd (closeTicket ex_env (JsTicket (TextTicket 0)) ex_manager ex_world)))
        (TextTicket 0) = ''closed''"
    by blast
  from status_change_in_place [of ex_env "JsTicket (TextTicket 1)" ex_manager ex_world
      "TextTicket 1" _ _] r'
  have 2: "ticket_status (snd (snd (reopenTicket ex_env (JsTicket (TextTicket 1)) ex_manager ex_world)))
        (TextTicket 1) = ''open''"
    by blast
  show ?thesis using c' r' o 1 2 by blast
qed

section \<open>Deleting a ticket\<close>

text \<open>
  Claim C5. After a successful \<^verbatim>\<open>deleteTicket(ticket)\<close> no record with the ticket's
  \<^verbatim>\<open>channelId\<close> is left in the in-memory list, the storage file holds that list, the
  index has no entry under the ticket's number, and the operation returns true. When
  every entity of the index is stored under its own number, the entity itself is under
  no key of the index.
\<close>

theorem deleteTicket_removes_record:
  assumes "deleteTicket env ticket m w = (Inr b, m', w')"
  shows "\<exists>t. ticket = JsTicket t
     \<and> b
     \<and> ticket_channelId w t \<notin> channelId ` set (records m' w')
     \<and> (\<exists>path. storage (options m) = Some path
            \<and> fs w' path = Some (TicketArray (records m' w')))
     \<and> tickets m' (ticket_number w t) = None
     \<and> ((\<forall>k e. tickets m k = Some e \<longrightarrow> ticket_number w e = k) \<longrightarrow> t \<notin> ran (tickets m'))"
proof -
  from assms obtain t path where
    tk: "ticket = JsTicket t" and
    b: "b" and
    p: "storage (options m) = Some path" and
    r: "rawTickets m' = filter (\<lambda>a. channelId (heap w a) \<noteq> ticket_channelId w t) (rawTickets m)" and
    h: "heap w' = heap w" and
    f: "fs w' path = Some (TicketArray (map (heap w)
           (filter (\<lambda>a. channelId (heap w a) \<noteq> ticket_channelId w t) (rawTickets m))))" and
    ix: "tickets m' = (tickets m)(ticket_number w t := None)"
    by (auto simp: deleteTicket_def guard_inert Let_def ticket_channelId_def ticket_number_def
        records_def
        split: if_splits js_value.splits option.splits prod.splits sum.splits
        dest!: saveRawTickets_Inr)
  have gone: "ticket_channelId w t \<notin> channelId ` set (records m' w')"
    by (auto simp: records_def r h)
  have absent: "(\<forall>k e. tickets m k = Some e \<longrightarrow> ticket_number w e = k) \<longrightarrow> t \<notin> ran (tickets m')"
    by (auto simp: ix ran_def split: if_splits)
  show ?thesis
    using tk b p f gone absent by (simp add: records_def r h ix)
qed

theorem deleteTicket_removes_record_witness:
  "fst (deleteTicket ex_env (JsTicket (TextTicket 0)) ex_manager ex_world) = Inr True
   \<and> fs (snd (snd (deleteTicket ex_env (JsTicket (TextTicket 0)) ex_manager ex_world)))
        ''tickets.json'' = Some (TicketArray [ex_record2])
   \<and> tickets (fst (snd (deleteTicket ex_env (JsTicket (TextTicket 0)) ex_manager ex_world))) 1
       = None
   \<and> TextTicket 0
       \<notin> ran (tickets (fst (snd (deleteTicket ex_env (JsTicket (TextTicket 0)) ex_manager ex_world))))"
proof -
  let ?res = "deleteTicket ex_env (JsTicket (TextTicket 0)) ex_manager ex_world"
  have c: "fst ?res = Inr True"
    by (simp add: deleteTicket_def op_defs ex_defs)
  then have ok: "?res = (Inr True, fst (snd ?res), snd (snd ?res))"
    by (metis prod.collapse)
  have inv: "\<forall>k e. tickets ex_manager k = Some e \<longrightarrow> ticket_number ex_world e = k"
    by (auto simp: ex_defs ticket_number_def split: if_splits)
  have n: "ticket_number ex_world (TextTicket 0) = 1"
    by (simp add: ticket_number_def ex_defs)
  from deleteTicket_removes_record [OF ok] inv n obtain path where
    p: "storage (options ex_manager) = Some path" and
    f: "fs (snd (snd ?res)) path = Some (TicketArray (records (fst (snd ?res)) (snd (snd ?res))))" and
    k: "tickets (fst (snd ?res)) 1 = None" and
    a: "TextTicket 0 \<notin> ran (tickets (fst (snd ?res)))"
    by auto
  from p have path: "path = ''tickets.json''"
    by (simp add: ex_defs)
  have "records (fst (snd ?res)) (snd (snd ?res)) = [ex_record2]"
    by (simp add: deleteTicket_def op_defs ex_defs)
  with f path c k a show ?thesis by simp
qed

section \<open>The initial load\<close>

text \<open>
  Claim C6. After the constructor has returned a manager: if the storage file does not
  exist (and the file system accepts the write), \<^verbatim>\<open>_init\<close> creates it holding the
  empty array, and the manager is ready with no ticket; if the file exists, can be read
  and holds text that is no JSON or a JSON value that is no array, \<^verbatim>\<open>_init\<close> raises
  no error, leaves the file system as it is, and the manager is ready with no ticket.
\<close>

theorem load_missing_or_corrupt_storage:
  assumes "construct c opts w0 = (Inr m, w)"
  shows "\<exists>path. storage (options m) = Some path
     \<and> (fs w path = None \<and> writeFile_ok env path \<longrightarrow>
          (\<exists>m' w'. init env m w = (Inr (), m', w')
             \<and> fs w' path = Some (TicketArray [])
             \<and> rawTickets m' = [] \<and> tickets m' = Map.empty \<and> ready m'))
     \<and> ((fs w path = Some Unparseable \<or> fs w path = Some NotAnArray) \<and> readFile_ok env path \<longrightarrow>
          (\<exists>m' w'. init env m w = (Inr (), m', w')
             \<and> fs w' = fs w
             \<and> rawTickets m' = [] \<and> tickets m' = Map.empty \<and> ready m'))"
proof -
  from construct_Inr [OF assms] obtain path where
    p: "storage (options m) = Some path" and
    e: "tickets m = Map.empty"
    by blast
  have missing: "\<exists>m' w'. init env m w = (Inr (), m', w')
             \<and> fs w' path = Some (TicketArray [])
             \<and> rawTickets m' = [] \<and> tickets m' = Map.empty \<and> ready m'"
    if "fs w path = None" "writeFile_ok env path"
    using that p e by (simp add: init_def loadAllTickets_def Let_def)
  have corrupt: "\<exists>m' w'. init env m w = (Inr (), m', w')
             \<and> fs w' = fs w
             \<and> rawTickets m' = [] \<and> tickets m' = Map.empty \<and> ready m'"
    if "fs w path = Some Unparseable \<or> fs w path = Some NotAnArray" "readFile_ok env path"
    using that p e by (auto simp: init_def loadAllTickets_def Let_def)
  show ?thesis
  proof (intro exI [of _ path] conjI impI)
    show "storage (options m) = Some path" by (rule p)
  next
    assume a: "fs w path = None \<and> writeFile_ok env path"
    show "\<exists>m' w'. init env m w = (Inr (), m', w')
             \<and> fs w' path = Some (TicketArray [])
             \<and> rawTickets m' = [] \<and> tickets m' = Map.empty \<and> ready m'"
      by (rule missing) (simp_all add: a)
  next
    assume a: "(fs w path = Some Unparseable \<or> fs w path = Some NotAnArray)
                 \<and> readFile_ok env path"
    show "\<exists>m' w'. init env m w = (Inr (), m', w')
             \<and> fs w' = fs w
             \<and> rawTickets m' = [] \<and> tickets m' = Map.empty \<and> ready m'"
      by (rule corrupt) (simp_all add: a)
  qed
qed

theorem load_missing_or_corrupt_storage_witness:
  "fs ex_world_missing ''tickets.json'' = None
   \<and> fst (init ex_env ex_loading (ex_world_missing\<lparr>io := [FsExists ''tickets.json'']\<rparr>)) = Inr ()
   \<and> fs (snd (snd (init ex_env ex_loading (ex_world_missing\<lparr>io := [FsExists ''tickets.json'']\<rparr>))))
        ''tickets.json'' = Some (TicketArray [])
   \<and> fs ex_world_corrupt ''tickets.json'' = Some Unparseable
   \<and> fst (init ex_env ex_loading (ex_world_corrupt\<lparr>io := [FsExists ''tickets.json'']\<rparr>)) = Inr ()
   \<and> rawTickets (fst (snd (init ex_env ex_loading
        (ex_world_corrupt\<lparr>io := [FsExists ''tickets.json'']\<rparr>)))) = []"
proof -
  have s: "storage (options ex_loading) = Some ''tickets.json''"
    by (simp add: ex_defs)
  have a: "fs (ex_world_missing\<lparr>io := [FsExists ''tickets.json'']\<rparr>) ''tickets.json'' = None"
    "writeFile_ok ex_env ''tickets.json''"
    "fs (ex_world_corrupt\<lparr>io := [FsExists ''tickets.json'']\<rparr>) ''tickets.json'' = Some Unparseable"
    "readFile_ok ex_env ''tickets.json''"
    by (simp_all add: ex_defs)
  from load_missing_or_corrupt_storage [OF construct_ex_missing, of ex_env] s a
  have 1: "\<exists>m' w'. init ex_env ex_loading (ex_world_missing\<lparr>io := [FsExists ''tickets.json'']\<rparr>)
              = (Inr (), m', w') \<and> fs w' ''tickets.json'' = Some (TicketArray [])"
    by auto
  from load_missing_or_corrupt_storage [OF construct_ex_corrupt, of ex_env] s a
  have 2: "\<exists>m' w'. init ex_env ex_loading (ex_world_corrupt\<lparr>io := [FsExists ''tickets.json'']\<rparr>)
              = (Inr (), m', w') \<and> rawTickets m' = []"
    by auto
  from 1 2 a show ?thesis
    by (auto simp: ex_world_missing_def ex_world_corrupt_def)
qed

end
